theory Spec2Isabelle
  imports
    Main
    "HOL-Library.Word"
    "HOL-Library.AList"
    "HOL-Library.Char_ord"
    "HOL-Library.List_Lexorder"
begin

unbundle bit_operations_syntax

section \<open>Data model (storage/storage.go)\<close>

type_synonym byte = "8 word"
type_synonym bytes = "byte list"

text \<open>
  The Go struct \<^verbatim>\<open>Item\<close>. \<open>Size\<close> is an \<^verbatim>\<open>int64\<close> that only ever receives the
  byte count returned by \<^verbatim>\<open>io.Copy\<close>; it is modelled as an unbounded integer.
  \<open>CreatedAt\<close> is a \<^verbatim>\<open>time.Time\<close>, modelled by its instant in nanoseconds since the
  Unix epoch, so that \<^verbatim>\<open>a.After(b)\<close> is \<open>b < a\<close>.
\<close>

record Item =
  ID :: string
  Filename :: string
  ContentType :: string
  Size :: int
  RenderMode :: string
  CreatedAt :: int
  OwnerToken :: string

text \<open>Every error value the modelled functions return, one constructor per message.\<close>

datatype error =
    ErrCreateFile        \<comment> \<open>"failed to create file: ..."\<close>
  | ErrWriteFile         \<comment> \<open>"failed to write file: ..."\<close>
  | ErrCreateMetaFile    \<comment> \<open>"failed to create metadata file: ..."\<close>
  | ErrWriteMeta         \<comment> \<open>"failed to write metadata: ..."\<close>
  | ErrFileNotFound      \<comment> \<open>"file not found"\<close>
  | ErrOpenFile          \<comment> \<open>"failed to open file: ..."\<close>
  | ErrItemNotFound      \<comment> \<open>"item not found"\<close>
  | ErrOpenMeta          \<comment> \<open>"failed to open metadata: ..."\<close>
  | ErrReadMeta          \<comment> \<open>"failed to read metadata: ..."\<close>
  | ErrReadMetaDir       \<comment> \<open>"failed to read metadata directory: ..."\<close>
  | ErrReadContent       \<comment> \<open>"failed to read content: ..."\<close>
  | ErrUploadFile        \<comment> \<open>"failed to upload file: ..."\<close>
  | ErrMarshalMeta       \<comment> \<open>"failed to marshal metadata: ..."\<close>
  | ErrUploadMeta        \<comment> \<open>"failed to upload metadata: ..."\<close>
  | ErrGetFile           \<comment> \<open>"failed to get file: ..."\<close>
  | ErrDecodeMeta        \<comment> \<open>"failed to decode metadata: ..."\<close>
  | ErrListObjects       \<comment> \<open>"failed to list objects: ..."\<close>
  | ErrPermission        \<comment> \<open>\<^verbatim>\<open>os.ErrPermission\<close>\<close>
  | ErrNotExist          \<comment> \<open>\<^verbatim>\<open>os.ErrNotExist\<close>\<close>
  | ErrInvalid           \<comment> \<open>\<^verbatim>\<open>os.ErrInvalid\<close>\<close>
  | ErrFileTooLarge      \<comment> \<open>"file too large"\<close>
  | ErrReadAll           \<comment> \<open>the error of a failed \<^verbatim>\<open>io.ReadAll\<close>, passed on as it is\<close>
  | EOF                  \<comment> \<open>\<^verbatim>\<open>io.EOF\<close>\<close>

section \<open>The storage medium and its failures\<close>

text \<open>
  What a metadata file (or metadata object) holds is modelled by what
  \<^verbatim>\<open>json.Decoder.Decode\<close> makes of it: the record it decodes to, or a decoding
  failure. Writing the encoding of an item is therefore writing \<open>Json item\<close>.
\<close>

datatype mdoc = Json Item | Malformed

text \<open>
  The \<^verbatim>\<open>Storage\<close> methods that the directory adapter calls through the interface;
  the world keeps the sequence of these calls.
\<close>

datatype call =
    PutCall string bytes Item
  | GetCall string
  | GetMetaCall string
  | DeleteCall string
  | ListCall string

text \<open>
  The world: the blob area (directory \<^verbatim>\<open>files\<close> under the base path, or the keys
  \<^verbatim>\<open>files/...\<close> of the bucket), the metadata area (directory \<^verbatim>\<open>meta\<close>, or the keys
  \<^verbatim>\<open>meta/...\<close>), both as association lists from path (relative to the base path) or key
  to content; the calls made through the \<^verbatim>\<open>Storage\<close> interface so far; the bytes the
  random source will deliver; and the wall clock.
\<close>

record world =
  blobs :: "(string \<times> bytes) list"
  docs :: "(string \<times> mdoc) list"
  calls :: "call list"
  entropy :: bytes
  clock :: int

text \<open>
  The primitive operations of the operating system and of the object-store client that
  can fail, and the environment that says which of them fails on which path or key.
  \<open>copied\<close> is the number of bytes a failing \<^verbatim>\<open>io.Copy\<close> has transferred.
\<close>

datatype sysop =
    OsCreate | IoCopy | JsonEncode | OsRemove | OsOpen | JsonDecode | OsReadDir | IoReadAll
  | S3PutObject | S3GetObject | S3DeleteObject | S3ListObjects

record env =
  fails :: "sysop \<Rightarrow> string \<Rightarrow> bool"
  copied :: "string \<Rightarrow> nat"

definition fault_free :: "env \<Rightarrow> bool" where
  "fault_free E \<longleftrightarrow> (\<forall>op p. \<not> fails E op p)"

text \<open>
  \<^verbatim>\<open>json.Marshal\<close> of an \<^verbatim>\<open>Item\<close> fails only in \<^verbatim>\<open>time.Time.MarshalJSON\<close>, when the year
  is outside \<open>[0, 9999]\<close>; the bounds are the instants 0000-01-01T00:00:00Z and
  10000-01-01T00:00:00Z (stored times are in UTC).
\<close>

definition marshal_ok :: "Item \<Rightarrow> bool" where
  "marshal_ok item \<longleftrightarrow>
     - 62167219200 * 1000000000 \<le> CreatedAt item \<and> CreatedAt item < 253402300800 * 1000000000"

section \<open>Filesystem backend (storage/filesystem.go)\<close>

text \<open>
  Paths are taken relative to the base path, and \<^verbatim>\<open>filepath.Join\<close> is concatenation with
  a separator: the cleaning of \<^verbatim>\<open>.\<close> and \<^verbatim>\<open>..\<close> elements that \<^verbatim>\<open>Join\<close> performs is not
  modelled, so the paths are those of ids that are plain file names, as \<open>generateID\<close>
  produces them.
\<close>

definition filePath :: "string \<Rightarrow> string" where
  "filePath ident = ''files/'' @ ident"

definition metaPath :: "string \<Rightarrow> string" where
  "metaPath ident = ''meta/'' @ ident @ ''.json''"

text \<open>\<^verbatim>\<open>os.Remove\<close>, whose error the callers ignore.\<close>

definition os_Remove :: "env \<Rightarrow> string \<Rightarrow> world \<Rightarrow> world" where
  "os_Remove E p w =
     (if fails E OsRemove p then w
      else w\<lparr>blobs := AList.delete p (blobs w), docs := AList.delete p (docs w)\<rparr>)"

text \<open>
  \<open>Put\<close>: \<^verbatim>\<open>os.Create\<close> truncates the blob file, \<^verbatim>\<open>io.Copy\<close> fills it (a failing copy
  leaves the bytes it has transferred), \<^verbatim>\<open>item.Size = size\<close> is the update \<open>item'\<close>, and
  \<^verbatim>\<open>Encode\<close> marshals the item and writes it to the freshly created metadata file.
\<close>

definition Filesystem_Put :: "env \<Rightarrow> world \<Rightarrow> string \<Rightarrow> bytes \<Rightarrow> Item \<Rightarrow> error option \<times> world" where
  "Filesystem_Put E w ident content item =
     (if fails E OsCreate (filePath ident) then (Some ErrCreateFile, w)
      else
        let w1 = w\<lparr>blobs := AList.update (filePath ident) [] (blobs w)\<rparr> in
        if fails E IoCopy (filePath ident) then
          (Some ErrWriteFile,
           os_Remove E (filePath ident)
             (w1\<lparr>blobs := AList.update (filePath ident)
                              (take (copied E (filePath ident)) content) (blobs w1)\<rparr>))
        else
          let w2 = w1\<lparr>blobs := AList.update (filePath ident) content (blobs w1)\<rparr>;
              item' = item\<lparr>Size := int (length content)\<rparr> in
          if fails E OsCreate (metaPath ident) then
            (Some ErrCreateMetaFile, os_Remove E (filePath ident) w2)
          else
            let w3 = w2\<lparr>docs := AList.update (metaPath ident) Malformed (docs w2)\<rparr> in
            if \<not> marshal_ok item' \<or> fails E JsonEncode (metaPath ident) then
              (Some ErrWriteMeta, os_Remove E (metaPath ident) (os_Remove E (filePath ident) w3))
            else
              (None, w3\<lparr>docs := AList.update (metaPath ident) (Json item') (docs w3)\<rparr>))"

text \<open>
  The number of bytes \<open>Put\<close> has taken from its reader when it returns, for a reader
  that gives up exactly the bytes \<^verbatim>\<open>io.Copy\<close> transfers, as the \<^verbatim>\<open>bytes.Buffer\<close> of a write
  handle does: none when the blob file cannot be created, the transferred ones when the
  copy fails, all of them otherwise.
\<close>

definition Filesystem_Put_read :: "env \<Rightarrow> string \<Rightarrow> bytes \<Rightarrow> nat" where
  "Filesystem_Put_read E ident content =
     (if fails E OsCreate (filePath ident) then 0
      else if fails E IoCopy (filePath ident) then min (copied E (filePath ident)) (length content)
      else length content)"

definition Filesystem_GetMeta :: "env \<Rightarrow> world \<Rightarrow> string \<Rightarrow> error + Item" where
  "Filesystem_GetMeta E w ident =
     (if fails E OsOpen (metaPath ident) then Inl ErrOpenMeta
      else case map_of (docs w) (metaPath ident) of
        None \<Rightarrow> Inl ErrItemNotFound
      | Some d \<Rightarrow>
          (if fails E JsonDecode (metaPath ident) then Inl ErrReadMeta
           else case d of Malformed \<Rightarrow> Inl ErrReadMeta | Json item \<Rightarrow> Inr item))"

definition Filesystem_Get :: "env \<Rightarrow> world \<Rightarrow> string \<Rightarrow> error + (bytes \<times> Item)" where
  "Filesystem_Get E w ident =
     (case Filesystem_GetMeta E w ident of
        Inl err \<Rightarrow> Inl err
      | Inr item \<Rightarrow>
          (if fails E OsOpen (filePath ident) then Inl ErrOpenFile
           else case map_of (blobs w) (filePath ident) of
             None \<Rightarrow> Inl ErrFileNotFound
           | Some data \<Rightarrow> Inr (data, item)))"

definition Filesystem_Delete :: "env \<Rightarrow> world \<Rightarrow> string \<Rightarrow> error option \<times> world" where
  "Filesystem_Delete E w ident =
     (None, os_Remove E (metaPath ident) (os_Remove E (filePath ident) w))"

text \<open>
  \<^verbatim>\<open>filepath.Ext\<close>: the suffix beginning at the final dot in the final element of the
  path, empty if there is no dot. \<open>Ext_scan\<close> walks the reversed path as the Go loop walks
  the indices downwards.
\<close>

fun Ext_scan :: "string \<Rightarrow> string \<Rightarrow> string" where
  "Ext_scan [] acc = []"
| "Ext_scan (c # cs) acc =
     (if c = CHR ''/'' then []
      else if c = CHR ''.'' then c # acc
      else Ext_scan cs (c # acc))"

definition filepath_Ext :: "string \<Rightarrow> string" where
  "filepath_Ext p = Ext_scan (rev p) []"

text \<open>
  \<^verbatim>\<open>os.ReadDir\<close> of the metadata directory: the names of its entries, sorted by
  filename. Only regular files are listed here; the loop of \<^verbatim>\<open>List\<close> skips directories
  (\<^verbatim>\<open>entry.IsDir()\<close>) anyway.
\<close>

definition meta_entries :: "world \<Rightarrow> string list" where
  "meta_entries w =
     sort (remdups (map (drop 5)
       (filter (\<lambda>k. take 5 k = ''meta/'' \<and> CHR ''/'' \<notin> set (drop 5 k)) (map fst (docs w)))))"

text \<open>
  \<^verbatim>\<open>sort.Slice\<close> with the given \<^verbatim>\<open>less\<close>, as an insertion sort. The library's sort is not
  stable, so the order of elements that \<^verbatim>\<open>less\<close> does not separate is not determined by
  the source.
\<close>

fun insert_Slice :: "('a \<Rightarrow> 'a \<Rightarrow> bool) \<Rightarrow> 'a \<Rightarrow> 'a list \<Rightarrow> 'a list" where
  "insert_Slice lt x [] = [x]"
| "insert_Slice lt x (y # ys) =
     (if lt y x then y # insert_Slice lt x ys else x # y # ys)"

definition sort_Slice :: "('a \<Rightarrow> 'a \<Rightarrow> bool) \<Rightarrow> 'a list \<Rightarrow> 'a list" where
  "sort_Slice lt xs = foldr (insert_Slice lt) xs []"

fun Filesystem_List_loop :: "env \<Rightarrow> world \<Rightarrow> string \<Rightarrow> string list \<Rightarrow> Item list" where
  "Filesystem_List_loop E w ownerToken [] = []"
| "Filesystem_List_loop E w ownerToken (n # ns) =
     (if filepath_Ext n \<noteq> ''.json'' then Filesystem_List_loop E w ownerToken ns
      else
        case Filesystem_GetMeta E w (take (length n - 5) n) of
          Inl err \<Rightarrow> Filesystem_List_loop E w ownerToken ns
        | Inr item \<Rightarrow>
            (if OwnerToken item = ownerToken
             then item # Filesystem_List_loop E w ownerToken ns
             else Filesystem_List_loop E w ownerToken ns))"

definition After :: "Item \<Rightarrow> Item \<Rightarrow> bool" where
  "After a b \<longleftrightarrow> CreatedAt b < CreatedAt a"

definition Filesystem_List :: "env \<Rightarrow> world \<Rightarrow> string \<Rightarrow> error + Item list" where
  "Filesystem_List E w ownerToken =
     (if fails E OsReadDir ''meta'' then Inl ErrReadMetaDir
      else Inr (sort_Slice After (Filesystem_List_loop E w ownerToken (meta_entries w))))"

section \<open>Object-store backend (storage/s3.go)\<close>

definition fileKey :: "string \<Rightarrow> string" where
  "fileKey ident = ''files/'' @ ident"

definition metaKey :: "string \<Rightarrow> string" where
  "metaKey ident = ''meta/'' @ ident @ ''.json''"

text \<open>\<^verbatim>\<open>client.DeleteObject\<close>, whose error the callers ignore.\<close>

definition s3_DeleteObject :: "env \<Rightarrow> string \<Rightarrow> world \<Rightarrow> world" where
  "s3_DeleteObject E k w =
     (if fails E S3DeleteObject k then w
      else w\<lparr>blobs := AList.delete k (blobs w), docs := AList.delete k (docs w)\<rparr>)"

definition S3Storage_Put :: "env \<Rightarrow> world \<Rightarrow> string \<Rightarrow> bytes \<Rightarrow> Item \<Rightarrow> error option \<times> world" where
  "S3Storage_Put E w ident content item =
     (if fails E IoCopy (fileKey ident) then (Some ErrReadContent, w)
      else
        let item' = item\<lparr>Size := int (length content)\<rparr> in
        if fails E S3PutObject (fileKey ident) then (Some ErrUploadFile, w)
        else
          let w1 = w\<lparr>blobs := AList.update (fileKey ident) content (blobs w)\<rparr> in
          if \<not> marshal_ok item' then (Some ErrMarshalMeta, w1)
          else if fails E S3PutObject (metaKey ident) then
            (Some ErrUploadMeta, s3_DeleteObject E (fileKey ident) w1)
          else
            (None, w1\<lparr>docs := AList.update (metaKey ident) (Json item') (docs w1)\<rparr>))"

definition S3Storage_Put_read :: "env \<Rightarrow> string \<Rightarrow> bytes \<Rightarrow> nat" where
  "S3Storage_Put_read E ident content =
     (if fails E IoCopy (fileKey ident) then min (copied E (fileKey ident)) (length content)
      else length content)"

definition S3Storage_GetMeta :: "env \<Rightarrow> world \<Rightarrow> string \<Rightarrow> error + Item" where
  "S3Storage_GetMeta E w ident =
     (if fails E S3GetObject (metaKey ident) then Inl ErrItemNotFound
      else case map_of (docs w) (metaKey ident) of
        None \<Rightarrow> Inl ErrItemNotFound
      | Some d \<Rightarrow>
          (if fails E JsonDecode (metaKey ident) then Inl ErrDecodeMeta
           else case d of Malformed \<Rightarrow> Inl ErrDecodeMeta | Json item \<Rightarrow> Inr item))"

definition S3Storage_Get :: "env \<Rightarrow> world \<Rightarrow> string \<Rightarrow> error + (bytes \<times> Item)" where
  "S3Storage_Get E w ident =
     (case S3Storage_GetMeta E w ident of
        Inl err \<Rightarrow> Inl err
      | Inr item \<Rightarrow>
          (if fails E S3GetObject (fileKey ident) then Inl ErrGetFile
           else case map_of (blobs w) (fileKey ident) of
             None \<Rightarrow> Inl ErrGetFile
           | Some data \<Rightarrow> Inr (data, item)))"

definition S3Storage_Delete :: "env \<Rightarrow> world \<Rightarrow> string \<Rightarrow> error option \<times> world" where
  "S3Storage_Delete E w ident =
     (None, s3_DeleteObject E (metaKey ident) (s3_DeleteObject E (fileKey ident) w))"

text \<open>
  The keys \<^verbatim>\<open>ListObjectsV2\<close> returns for the prefix \<^verbatim>\<open>meta/\<close>, all pages of the
  paginator one after the other: the object store lists keys in lexicographic order.
\<close>

definition meta_keys :: "world \<Rightarrow> string list" where
  "meta_keys w = sort (remdups (filter (\<lambda>k. take 5 k = ''meta/'') (map fst (docs w))))"

fun S3Storage_List_loop :: "env \<Rightarrow> world \<Rightarrow> string \<Rightarrow> string list \<Rightarrow> Item list" where
  "S3Storage_List_loop E w ownerToken [] = []"
| "S3Storage_List_loop E w ownerToken (key # keys) =
     (if length key \<le> 10 then S3Storage_List_loop E w ownerToken keys
      else
        case S3Storage_GetMeta E w (take (length key - 10) (drop 5 key)) of
          Inl err \<Rightarrow> S3Storage_List_loop E w ownerToken keys
        | Inr item \<Rightarrow>
            (if OwnerToken item = ownerToken
             then item # S3Storage_List_loop E w ownerToken keys
             else S3Storage_List_loop E w ownerToken keys))"

definition S3Storage_List :: "env \<Rightarrow> world \<Rightarrow> string \<Rightarrow> error + Item list" where
  "S3Storage_List E w ownerToken =
     (if fails E S3ListObjects ''meta/'' then Inl ErrListObjects
      else Inr (S3Storage_List_loop E w ownerToken (meta_keys w)))"

section \<open>The Storage interface\<close>

datatype Storage = Filesystem | S3Storage

definition record_call :: "call \<Rightarrow> world \<Rightarrow> world" where
  "record_call c w = w\<lparr>calls := calls w @ [c]\<rparr>"

definition Storage_Put ::
  "env \<Rightarrow> Storage \<Rightarrow> world \<Rightarrow> string \<Rightarrow> bytes \<Rightarrow> Item \<Rightarrow> error option \<times> world" where
  "Storage_Put E st w ident content item =
     (case st of
        Filesystem \<Rightarrow> Filesystem_Put E (record_call (PutCall ident content item) w) ident content item
      | S3Storage \<Rightarrow> S3Storage_Put E (record_call (PutCall ident content item) w) ident content item)"

definition Storage_Put_read :: "env \<Rightarrow> Storage \<Rightarrow> string \<Rightarrow> bytes \<Rightarrow> nat" where
  "Storage_Put_read E st ident content =
     (case st of
        Filesystem \<Rightarrow> Filesystem_Put_read E ident content
      | S3Storage \<Rightarrow> S3Storage_Put_read E ident content)"

definition Storage_Get ::
  "env \<Rightarrow> Storage \<Rightarrow> world \<Rightarrow> string \<Rightarrow> (error + (bytes \<times> Item)) \<times> world" where
  "Storage_Get E st w ident =
     (case st of
        Filesystem \<Rightarrow> (Filesystem_Get E w ident, record_call (GetCall ident) w)
      | S3Storage \<Rightarrow> (S3Storage_Get E w ident, record_call (GetCall ident) w))"

definition Storage_GetMeta ::
  "env \<Rightarrow> Storage \<Rightarrow> world \<Rightarrow> string \<Rightarrow> (error + Item) \<times> world" where
  "Storage_GetMeta E st w ident =
     (case st of
        Filesystem \<Rightarrow> (Filesystem_GetMeta E w ident, record_call (GetMetaCall ident) w)
      | S3Storage \<Rightarrow> (S3Storage_GetMeta E w ident, record_call (GetMetaCall ident) w))"

definition Storage_Delete ::
  "env \<Rightarrow> Storage \<Rightarrow> world \<Rightarrow> string \<Rightarrow> error option \<times> world" where
  "Storage_Delete E st w ident =
     (case st of
        Filesystem \<Rightarrow> Filesystem_Delete E (record_call (DeleteCall ident) w) ident
      | S3Storage \<Rightarrow> S3Storage_Delete E (record_call (DeleteCall ident) w) ident)"

definition Storage_List ::
  "env \<Rightarrow> Storage \<Rightarrow> world \<Rightarrow> string \<Rightarrow> (error + Item list) \<times> world" where
  "Storage_List E st w ownerToken =
     (case st of
        Filesystem \<Rightarrow> (Filesystem_List E w ownerToken, record_call (ListCall ownerToken) w)
      | S3Storage \<Rightarrow> (S3Storage_List E w ownerToken, record_call (ListCall ownerToken) w))"

section \<open>Helpers of the API package (api/api.go)\<close>

text \<open>
  \<^verbatim>\<open>generateID\<close>: twelve bytes of \<^verbatim>\<open>crypto/rand\<close>, hex-encoded. The error of \<^verbatim>\<open>rand.Read\<close>
  is ignored by the source; bytes the random source does not deliver stay zero.
\<close>

definition hextable :: string where
  "hextable = ''0123456789abcdef''"

definition hex_byte :: "byte \<Rightarrow> string" where
  "hex_byte b = [hextable ! unat (drop_bit 4 b), hextable ! unat (b AND 0x0f)]"

definition hex_EncodeToString :: "bytes \<Rightarrow> string" where
  "hex_EncodeToString bs = concat (map hex_byte bs)"

definition rand_Read :: "nat \<Rightarrow> world \<Rightarrow> bytes \<times> world" where
  "rand_Read n w = (take n (entropy w @ replicate n 0), w\<lparr>entropy := drop n (entropy w)\<rparr>)"

definition generateID :: "world \<Rightarrow> string \<times> world" where
  "generateID w = (let (bs, w') = rand_Read 12 w in (hex_EncodeToString bs, w'))"

text \<open>
  The library functions \<^verbatim>\<open>detectContentType\<close> relies on: \<^verbatim>\<open>mime.TypeByExtension\<close> (which
  reads the system's MIME tables), \<^verbatim>\<open>strings.ToLower\<close> and \<^verbatim>\<open>http.DetectContentType\<close>.
\<close>

record libs =
  TypeByExtension :: "string \<Rightarrow> string"
  ToLower :: "string \<Rightarrow> string"
  DetectContentType :: "bytes \<Rightarrow> string"

definition ext_switch :: "string \<Rightarrow> string option" where
  "ext_switch e =
     (if e = ''.md'' \<or> e = ''.markdown'' then Some ''text/markdown''
      else if e = ''.ts'' then Some ''text/typescript''
      else if e = ''.tsx'' then Some ''text/tsx''
      else if e = ''.jsx'' then Some ''text/jsx''
      else if e = ''.yaml'' \<or> e = ''.yml'' then Some ''text/yaml''
      else if e = ''.toml'' then Some ''text/toml''
      else if e = ''.go'' then Some ''text/x-go''
      else if e = ''.rs'' then Some ''text/x-rust''
      else if e = ''.py'' then Some ''text/x-python''
      else if e = ''.rb'' then Some ''text/x-ruby''
      else if e = ''.sh'' \<or> e = ''.bash'' then Some ''text/x-shellscript''
      else if e = ''.sql'' then Some ''text/x-sql''
      else if e = ''.dockerfile'' then Some ''text/x-dockerfile''
      else None)"

definition by_extension :: "libs \<Rightarrow> string \<Rightarrow> string option" where
  "by_extension L filename =
     (if filename = [] then None
      else
        let ext = filepath_Ext filename; mimeType = TypeByExtension L ext in
        if mimeType \<noteq> [] then Some mimeType else ext_switch (ToLower L ext))"

definition detectContentType :: "libs \<Rightarrow> string \<Rightarrow> bytes \<Rightarrow> string" where
  "detectContentType L filename content =
     (case by_extension L filename of
        Some t \<Rightarrow> t
      | None \<Rightarrow> (if content \<noteq> [] then DetectContentType L content else ''text/plain''))"

section \<open>The directory adapter (api/webdav.go)\<close>

record davFileInfo =
  fi_name :: string
  fi_size :: int
  fi_mode :: "32 word"
  fi_modTime :: int
  fi_isDir :: bool

record davDir =
  d_info :: davFileInfo
  d_children :: "davFileInfo list"
  d_pos :: nat

record davFile =
  f_info :: davFileInfo
  f_reader :: bytes

record davWriteFile =
  wf_name :: string
  wf_token :: string
  wf_buffer :: bytes
  wf_maxFileSize :: int
  wf_closed :: bool

datatype File = DirHandle davDir | ReadHandle davFile | WriteHandle davWriteFile

definition ModeDir :: "32 word" where
  "ModeDir = push_bit 31 1"

text \<open>The permission bits \<^verbatim>\<open>0755\<close> and \<^verbatim>\<open>0644\<close> are 493 and 420.\<close>

definition TrimPrefix :: "string \<Rightarrow> string \<Rightarrow> string" where
  "TrimPrefix s pre = (if take (length pre) s = pre then drop (length pre) s else s)"

definition TrimSuffix :: "string \<Rightarrow> string \<Rightarrow> string" where
  "TrimSuffix s suf =
     (if length suf \<le> length s \<and> drop (length s - length suf) s = suf
      then take (length s - length suf) s else s)"

definition cleanPath :: "string \<Rightarrow> string" where
  "cleanPath name = TrimSuffix (TrimPrefix name ''/'') ''/''"

definition itemName :: "Item \<Rightarrow> string" where
  "itemName item = (if Filename item = [] then ID item else Filename item)"

fun findByFilename_loop :: "string \<Rightarrow> Item list \<Rightarrow> error + Item" where
  "findByFilename_loop name [] = Inl ErrNotExist"
| "findByFilename_loop name (item # items) =
     (if itemName item = name then Inr item else findByFilename_loop name items)"

definition findByFilename ::
  "env \<Rightarrow> Storage \<Rightarrow> world \<Rightarrow> string \<Rightarrow> string \<Rightarrow> (error + Item) \<times> world" where
  "findByFilename E st w token name =
     (case Storage_List E st w token of
        (Inl err, w') \<Rightarrow> (Inl err, w')
      | (Inr items, w') \<Rightarrow> (findByFilename_loop name items, w'))"

definition Mkdir :: "world \<Rightarrow> string \<Rightarrow> error option \<times> world" where
  "Mkdir w name = (Some ErrPermission, w)"

definition Rename :: "world \<Rightarrow> string \<Rightarrow> string \<Rightarrow> error option \<times> world" where
  "Rename w oldName newName = (Some ErrPermission, w)"

definition RemoveAll ::
  "env \<Rightarrow> Storage \<Rightarrow> world \<Rightarrow> string \<Rightarrow> string \<Rightarrow> error option \<times> world" where
  "RemoveAll E st w token name0 =
     (let name = cleanPath name0 in
      if name = [] \<or> name = ''/'' then (Some ErrPermission, w)
      else
        case findByFilename E st w token name of
          (Inl err, w1) \<Rightarrow> (Some err, w1)
        | (Inr item, w1) \<Rightarrow>
            (if OwnerToken item \<noteq> token then (Some ErrPermission, w1)
             else Storage_Delete E st w1 (ID item)))"

definition Stat ::
  "env \<Rightarrow> Storage \<Rightarrow> world \<Rightarrow> string \<Rightarrow> string \<Rightarrow> (error + davFileInfo) \<times> world" where
  "Stat E st w token name0 =
     (let name = cleanPath name0 in
      if name = [] \<or> name = ''/'' then
        (Inr \<lparr>fi_name = ''/'', fi_size = 0, fi_mode = ModeDir OR 493,
              fi_modTime = clock w, fi_isDir = True\<rparr>, w)
      else
        case findByFilename E st w token name of
          (Inl err, w1) \<Rightarrow> (Inl err, w1)
        | (Inr item, w1) \<Rightarrow>
            (Inr \<lparr>fi_name = Filename item, fi_size = Size item, fi_mode = 420,
                  fi_modTime = CreatedAt item, fi_isDir = False\<rparr>, w1))"

definition child_info :: "Item \<Rightarrow> davFileInfo" where
  "child_info item =
     \<lparr>fi_name = itemName item, fi_size = Size item, fi_mode = 420,
      fi_modTime = CreatedAt item, fi_isDir = False\<rparr>"

definition openRootDir ::
  "env \<Rightarrow> Storage \<Rightarrow> world \<Rightarrow> string \<Rightarrow> (error + File) \<times> world" where
  "openRootDir E st w token =
     (case Storage_List E st w token of
        (Inl err, w1) \<Rightarrow> (Inl err, w1)
      | (Inr items, w1) \<Rightarrow>
          (Inr (DirHandle
             \<lparr>d_info = \<lparr>fi_name = ''/'', fi_size = 0, fi_mode = ModeDir OR 493,
                         fi_modTime = clock w, fi_isDir = True\<rparr>,
              d_children = map child_info items,
              d_pos = 0\<rparr>), w1))"

definition openFile ::
  "env \<Rightarrow> Storage \<Rightarrow> world \<Rightarrow> string \<Rightarrow> string \<Rightarrow> (error + File) \<times> world" where
  "openFile E st w token name =
     (case findByFilename E st w token name of
        (Inl err, w1) \<Rightarrow> (Inl err, w1)
      | (Inr item, w1) \<Rightarrow>
          (case Storage_Get E st w1 (ID item) of
             (Inl err, w2) \<Rightarrow> (Inl ErrNotExist, w2)
           | (Inr (content, meta), w2) \<Rightarrow>
               (if fails E IoReadAll (ID item) then (Inl ErrReadAll, w2)
                else
                  (Inr (ReadHandle
                     \<lparr>f_info = \<lparr>fi_name = Filename item, fi_size = Size item, fi_mode = 420,
                                 fi_modTime = CreatedAt item, fi_isDir = False\<rparr>,
                      f_reader = content\<rparr>), w2))))"

definition createFile :: "int \<Rightarrow> world \<Rightarrow> string \<Rightarrow> string \<Rightarrow> (error + File) \<times> world" where
  "createFile maxFileSize w token name =
     (Inr (WriteHandle
        \<lparr>wf_name = name, wf_token = token, wf_buffer = [],
         wf_maxFileSize = maxFileSize, wf_closed = False\<rparr>), w)"

text \<open>The open flags, with the values of \<^verbatim>\<open>package os\<close> on Linux.\<close>

definition O_WRONLY :: int where "O_WRONLY = 1"
definition O_RDWR :: int where "O_RDWR = 2"
definition O_CREATE :: int where "O_CREATE = 64"

definition OpenFile ::
  "env \<Rightarrow> Storage \<Rightarrow> int \<Rightarrow> world \<Rightarrow> string \<Rightarrow> string \<Rightarrow> int \<Rightarrow> (error + File) \<times> world" where
  "OpenFile E st maxFileSize w token name0 flag =
     (let name = cleanPath name0 in
      if name = [] \<or> name = ''/'' then openRootDir E st w token
      else if flag AND O_CREATE \<noteq> 0 \<or> flag AND O_WRONLY \<noteq> 0 \<or> flag AND O_RDWR \<noteq> 0
        then createFile maxFileSize w token name
      else openFile E st w token name)"

subsection \<open>Directory handle\<close>

definition Readdir :: "davDir \<Rightarrow> int \<Rightarrow> (error + davFileInfo list) \<times> davDir" where
  "Readdir d count =
     (if d_pos d \<ge> length (d_children d) then
        (if count \<le> 0 then (Inr [], d) else (Inl EOF, d))
      else
        let n = (if count \<le> 0 \<or> count > int (length (d_children d) - d_pos d)
                 then length (d_children d) - d_pos d else nat count) in
        (Inr (take n (drop (d_pos d) (d_children d))), d\<lparr>d_pos := d_pos d + n\<rparr>))"

subsection \<open>Write handle\<close>

text \<open>
  The lengths of the buffer and of the written slice are Go \<^verbatim>\<open>int\<close>s, far below the
  range of \<^verbatim>\<open>int64\<close>; the conversion is the identity.
\<close>

definition Write :: "davWriteFile \<Rightarrow> bytes \<Rightarrow> (nat \<times> error option) \<times> davWriteFile" where
  "Write f p =
     (if wf_maxFileSize f > 0 \<and> int (length (wf_buffer f) + length p) > wf_maxFileSize f
      then ((0, Some ErrFileTooLarge), f)
      else ((length p, None), f\<lparr>wf_buffer := wf_buffer f @ p\<rparr>))"

text \<open>
  \<^verbatim>\<open>Close\<close> hands the handle's own buffer to \<^verbatim>\<open>Put\<close> as an \<^verbatim>\<open>io.Reader\<close>: the bytes that \<open>Put\<close>
  reads are gone from the buffer afterwards.
\<close>

definition Close ::
  "libs \<Rightarrow> env \<Rightarrow> Storage \<Rightarrow> world \<Rightarrow> davWriteFile \<Rightarrow> (error option \<times> davWriteFile) \<times> world" where
  "Close L E st w f =
     (if wf_closed f then ((None, f), w)
      else
        let (ident, w1) = generateID w;
            item = \<lparr>ID = ident, Filename = wf_name f,
                    ContentType = detectContentType L (wf_name f) (wf_buffer f),
                    Size = 0, RenderMode = ''auto'', CreatedAt = clock w1,
                    OwnerToken = wf_token f\<rparr>;
            (err, w2) = Storage_Put E st w1 ident (wf_buffer f) item
        in ((err, f\<lparr>wf_closed := True,
                   wf_buffer := drop (Storage_Put_read E st ident (wf_buffer f)) (wf_buffer f)\<rparr>),
            w2))"

section \<open>Example stores and handles\<close>

text \<open>A directory handle with three children, at read position \<open>p\<close>.\<close>

definition ex_info :: "string \<Rightarrow> davFileInfo" where
  "ex_info n = \<lparr>fi_name = n, fi_size = 0, fi_mode = 420, fi_modTime = 0, fi_isDir = False\<rparr>"

definition ex_dir :: "nat \<Rightarrow> davDir" where
  "ex_dir p =
     \<lparr>d_info = ex_info ''/'', d_children = [ex_info ''a'', ex_info ''b'', ex_info ''c''],
      d_pos = p\<rparr>"

text \<open>An environment in which no primitive operation fails.\<close>

definition ex_env :: env where
  "ex_env = \<lparr>fails = (\<lambda>op p. False), copied = (\<lambda>p. 0)\<rparr>"

text \<open>An open write handle with a cap of four bytes that has buffered three.\<close>

definition ex_handle :: davWriteFile where
  "ex_handle =
     \<lparr>wf_name = ''a.txt'', wf_token = ''tok'', wf_buffer = [1, 2, 3],
      wf_maxFileSize = 4, wf_closed = False\<rparr>"

text \<open>
  An empty store, the item and content of the scenario
  (id \<open>ab12\<close>, content \<open>hello\<close>, filename \<open>a.txt\<close>), the store that holds them, and a
  store that holds the metadata record without the blob.
\<close>

definition ex_world :: world where
  "ex_world = \<lparr>blobs = [], docs = [], calls = [], entropy = [], clock = 1700000000000000000\<rparr>"

definition ex_item :: Item where
  "ex_item =
     \<lparr>ID = ''ab12'', Filename = ''a.txt'', ContentType = ''text/plain'', Size = 0,
      RenderMode = ''auto'', CreatedAt = 1700000000000000000, OwnerToken = ''tok''\<rparr>"

definition ex_content :: bytes where
  "ex_content = [104, 101, 108, 108, 111]"

definition ex_stored :: world where
  "ex_stored =
     \<lparr>blobs = [(''files/ab12'', ex_content)],
      docs = [(''meta/ab12.json'', Json (ex_item\<lparr>Size := 5\<rparr>))],
      calls = [], entropy = [], clock = 1700000000000000000\<rparr>"

definition ex_meta_only :: world where
  "ex_meta_only =
     \<lparr>blobs = [],
      docs = [(''meta/ab12.json'', Json (ex_item\<lparr>Size := 5\<rparr>))],
      calls = [], entropy = [], clock = 1700000000000000000\<rparr>"

text \<open>
  An environment in which creating the metadata file and uploading the metadata object
  of \<open>ab12\<close> fail, and one in which the removal of the blob fails as well.
\<close>

definition ex_env_meta_fails :: env where
  "ex_env_meta_fails =
     \<lparr>fails = (\<lambda>op p. (op = OsCreate \<or> op = S3PutObject) \<and> p = ''meta/ab12.json''),
      copied = (\<lambda>p. 0)\<rparr>"

definition ex_env_cleanup_fails :: env where
  "ex_env_cleanup_fails =
     \<lparr>fails = (\<lambda>op p. (op = OsCreate \<or> op = S3PutObject) \<and> p = ''meta/ab12.json'' \<or>
                       (op = OsRemove \<or> op = S3DeleteObject) \<and> p = ''files/ab12''),
      copied = (\<lambda>p. 0)\<rparr>"

text \<open>
  The library functions as far as the examples need them, a fresh write handle for
  \<open>a.txt\<close> as \<open>createFile\<close> returns it, and a world whose random source delivers twelve
  bytes and which already stores the item \<open>ab12\<close> named \<open>a.txt\<close>.
\<close>

definition ex_libs :: libs where
  "ex_libs =
     \<lparr>TypeByExtension = (\<lambda>e. if e = ''.txt'' then ''text/plain; charset=utf-8'' else []),
      ToLower = (\<lambda>s. s),
      DetectContentType = (\<lambda>b. ''application/octet-stream'')\<rparr>"

definition ex_fresh :: davWriteFile where
  "ex_fresh =
     \<lparr>wf_name = ''a.txt'', wf_token = ''tok'', wf_buffer = [],
      wf_maxFileSize = 0, wf_closed = False\<rparr>"

definition ex_random :: world where
  "ex_random =
     \<lparr>blobs = [(''files/ab12'', ex_content)],
      docs = [(''meta/ab12.json'', Json (ex_item\<lparr>Size := 5\<rparr>))],
      calls = [],
      entropy = [0xab, 0x12, 0xcd, 0x34, 0xef, 0x56, 0x78, 0x90, 0xab, 0xcd, 0xef, 0x01],
      clock = 1700000000000000001\<rparr>"

definition ex_new_item :: Item where
  "ex_new_item =
     \<lparr>ID = ''ab12cd34ef567890abcdef01'', Filename = ''a.txt'',
      ContentType = ''text/plain; charset=utf-8'', Size = 0, RenderMode = ''auto'',
      CreatedAt = 1700000000000000001, OwnerToken = ''tok''\<rparr>"

text \<open>
  Two items of the owner \<open>tok\<close> with the same filename, \<open>a1\<close> created one second before
  \<open>b2\<close>, and the store that holds both.
\<close>

definition ex_older :: Item where
  "ex_older =
     \<lparr>ID = ''a1'', Filename = ''a.txt'', ContentType = ''text/plain'', Size = 3,
      RenderMode = ''auto'', CreatedAt = 1700000000000000000, OwnerToken = ''tok''\<rparr>"

definition ex_newer :: Item where
  "ex_newer =
     \<lparr>ID = ''b2'', Filename = ''a.txt'', ContentType = ''text/plain'', Size = 5,
      RenderMode = ''auto'', CreatedAt = 1700000001000000000, OwnerToken = ''tok''\<rparr>"

definition ex_two :: world where
  "ex_two =
     \<lparr>blobs = [(''files/a1'', [1, 2, 3]), (''files/b2'', ex_content)],
      docs = [(''meta/a1.json'', Json ex_older), (''meta/b2.json'', Json ex_newer)],
      calls = [], entropy = [], clock = 1700000000000000000\<rparr>"

text \<open>
  The write handle with a cap of four bytes before anything is written, and a world
  whose random source delivers the bytes of an id that the store already holds.
\<close>

definition ex_capped :: davWriteFile where
  "ex_capped =
     \<lparr>wf_name = ''a.txt'', wf_token = ''tok'', wf_buffer = [],
      wf_maxFileSize = 4, wf_closed = False\<rparr>"

definition ex_old_item :: Item where
  "ex_old_item =
     \<lparr>ID = ''ab12cd34ef567890abcdef01'', Filename = ''old.txt'', ContentType = ''text/plain'',
      Size = 5, RenderMode = ''auto'', CreatedAt = 1700000000000000000, OwnerToken = ''ann''\<rparr>"

definition ex_collide :: world where
  "ex_collide =
     \<lparr>blobs = [(''files/ab12cd34ef567890abcdef01'', ex_content)],
      docs = [(''meta/ab12cd34ef567890abcdef01.json'', Json ex_old_item)],
      calls = [],
      entropy = [0xab, 0x12, 0xcd, 0x34, 0xef, 0x56, 0x78, 0x90, 0xab, 0xcd, 0xef, 0x01],
      clock = 1700000000000000001\<rparr>"

section \<open>Properties\<close>

subsection \<open>Readdir\<close>

text \<open>
  C9. For a directory handle with children \<open>c\<close> and read position \<open>p\<close>: \<open>Readdir count\<close>
  with \<open>count \<le> 0\<close> returns all remaining children \<open>drop p c\<close> and moves the position to
  the end, and returns an empty result without error when the list is already exhausted;
  with \<open>count > 0\<close> it returns the next \<open>min count (length c - p)\<close> children and advances
  the position by that amount; once exhausted, a call with \<open>count > 0\<close> returns \<open>EOF\<close>.
\<close>

theorem Readdir_pagination:
  "(count \<le> 0 \<and> d_pos d < length (d_children d) \<longrightarrow>
      Readdir d count =
        (Inr (drop (d_pos d) (d_children d)), d\<lparr>d_pos := length (d_children d)\<rparr>)) \<and>
   (count \<le> 0 \<and> length (d_children d) \<le> d_pos d \<longrightarrow>
      Readdir d count = (Inr [], d) \<and> drop (d_pos d) (d_children d) = []) \<and>
   (0 < count \<and> d_pos d < length (d_children d) \<longrightarrow>
      Readdir d count =
        (Inr (take (min (nat count) (length (d_children d) - d_pos d))
                (drop (d_pos d) (d_children d))),
         d\<lparr>d_pos := d_pos d + min (nat count) (length (d_children d) - d_pos d)\<rparr>)) \<and>
   (0 < count \<and> length (d_children d) \<le> d_pos d \<longrightarrow>
      Readdir d count = (Inl EOF, d))"
  by (auto simp: Readdir_def Let_def min_def)

theorem Readdir_pagination_witness:
  "Readdir (ex_dir 1) 0 = (Inr [ex_info ''b'', ex_info ''c''], ex_dir 3) \<and>
   Readdir (ex_dir 3) (- 1) = (Inr [], ex_dir 3) \<and>
   Readdir (ex_dir 0) 2 = (Inr [ex_info ''a'', ex_info ''b''], ex_dir 2) \<and>
   Readdir (ex_dir 2) 5 = (Inr [ex_info ''c''], ex_dir 3) \<and>
   Readdir (ex_dir 3) 1 = (Inl EOF, ex_dir 3)"
  using Readdir_pagination [of 0 "ex_dir 1"] Readdir_pagination [of "- 1" "ex_dir 3"]
    Readdir_pagination [of 2 "ex_dir 0"] Readdir_pagination [of 5 "ex_dir 2"]
    Readdir_pagination [of 1 "ex_dir 3"]
  by (simp add: ex_dir_def)

subsection \<open>Paths, keys and the primitive removals\<close>

lemma paths_differ [simp]:
  "filePath a \<noteq> metaPath b" "metaPath b \<noteq> filePath a"
  "fileKey a \<noteq> metaKey b" "metaKey b \<noteq> fileKey a"
  by (simp_all add: filePath_def metaPath_def fileKey_def metaKey_def)

lemma paths_inj [simp]:
  "filePath a = filePath b \<longleftrightarrow> a = b" "metaPath a = metaPath b \<longleftrightarrow> a = b"
  "fileKey a = fileKey b \<longleftrightarrow> a = b" "metaKey a = metaKey b \<longleftrightarrow> a = b"
  by (simp_all add: filePath_def metaPath_def fileKey_def metaKey_def)

lemma os_Remove_simps [simp]:
  "map_of (blobs (os_Remove E p w)) k =
     (if fails E OsRemove p then map_of (blobs w) k else ((map_of (blobs w))(p := None)) k)"
  "map_of (docs (os_Remove E p w)) k =
     (if fails E OsRemove p then map_of (docs w) k else ((map_of (docs w))(p := None)) k)"
  "calls (os_Remove E p w) = calls w"
  by (simp_all add: os_Remove_def delete_conv')

lemma s3_DeleteObject_simps [simp]:
  "map_of (blobs (s3_DeleteObject E p w)) k =
     (if fails E S3DeleteObject p then map_of (blobs w) k else ((map_of (blobs w))(p := None)) k)"
  "map_of (docs (s3_DeleteObject E p w)) k =
     (if fails E S3DeleteObject p then map_of (docs w) k else ((map_of (docs w))(p := None)) k)"
  "calls (s3_DeleteObject E p w) = calls w"
  by (simp_all add: s3_DeleteObject_def delete_conv')

lemma fault_free_ex_env: "fault_free ex_env"
  by (simp add: fault_free_def ex_env_def)

subsection \<open>Put and Get\<close>

lemma Filesystem_Put_ok:
  assumes "Filesystem_Put E w ident content item = (None, w')"
  shows "map_of (blobs w') (filePath ident) = Some content"
    and "map_of (docs w') (metaPath ident) = Some (Json (item\<lparr>Size := int (length content)\<rparr>))"
  using assms
  by (auto simp: Filesystem_Put_def Let_def update_conv' split: if_splits)

lemma S3Storage_Put_ok:
  assumes "S3Storage_Put E w ident content item = (None, w')"
  shows "map_of (blobs w') (fileKey ident) = Some content"
    and "map_of (docs w') (metaKey ident) = Some (Json (item\<lparr>Size := int (length content)\<rparr>))"
  using assms
  by (auto simp: S3Storage_Put_def Let_def update_conv' split: if_splits)

lemma Storage_Put_then_Get:
  assumes "fault_free E" and "Storage_Put E st w ident content item = (None, w')"
  shows "fst (Storage_Get E st w' ident) = Inr (content, item\<lparr>Size := int (length content)\<rparr>)"
proof (cases st)
  case Filesystem
  with assms(2)
  have "Filesystem_Put E (record_call (PutCall ident content item) w) ident content item = (None, w')"
    by (simp add: Storage_Put_def)
  from Filesystem_Put_ok [OF this] assms(1) Filesystem show ?thesis
    by (simp add: Storage_Get_def Filesystem_Get_def Filesystem_GetMeta_def fault_free_def)
next
  case S3Storage
  with assms(2)
  have "S3Storage_Put E (record_call (PutCall ident content item) w) ident content item = (None, w')"
    by (simp add: Storage_Put_def)
  from S3Storage_Put_ok [OF this] assms(1) S3Storage show ?thesis
    by (simp add: Storage_Get_def S3Storage_Get_def S3Storage_GetMeta_def fault_free_def)
qed

text \<open>
  C1. For every id, content and item, and on both backends: when \<open>Put\<close> has succeeded and
  no primitive operation fails, \<open>Get\<close> of the same id returns the bytes of \<open>content\<close> and
  the item with its \<open>Size\<close> set to the length of \<open>content\<close>.
\<close>

theorem Put_Get_roundtrip:
  assumes "fault_free E" and "Storage_Put E st w ident content item = (None, w')"
  shows "fst (Storage_Get E st w' ident) = Inr (content, item\<lparr>Size := int (length content)\<rparr>)"
  using assms by (rule Storage_Put_then_Get)

theorem Put_Get_roundtrip_witness:
  "fault_free ex_env \<and>
   fst (Storage_Put ex_env Filesystem ex_world ''ab12'' ex_content ex_item) = None \<and>
   fst (Storage_Get ex_env Filesystem
          (snd (Storage_Put ex_env Filesystem ex_world ''ab12'' ex_content ex_item)) ''ab12'') =
     Inr (ex_content, ex_item\<lparr>Size := 5\<rparr>) \<and>
   fst (Storage_Put ex_env S3Storage ex_world ''ab12'' ex_content ex_item) = None \<and>
   fst (Storage_Get ex_env S3Storage
          (snd (Storage_Put ex_env S3Storage ex_world ''ab12'' ex_content ex_item)) ''ab12'') =
     Inr (ex_content, ex_item\<lparr>Size := 5\<rparr>)"
proof -
  have fs: "fst (Storage_Put ex_env Filesystem ex_world ''ab12'' ex_content ex_item) = None"
    by (simp add: Storage_Put_def Filesystem_Put_def ex_env_def ex_item_def marshal_ok_def Let_def)
  have s3: "fst (Storage_Put ex_env S3Storage ex_world ''ab12'' ex_content ex_item) = None"
    by (simp add: Storage_Put_def S3Storage_Put_def ex_env_def ex_item_def marshal_ok_def Let_def)
  have len: "int (length ex_content) = 5"
    by (simp add: ex_content_def)
  from fs s3 len fault_free_ex_env
    Put_Get_roundtrip [OF fault_free_ex_env, of Filesystem ex_world "''ab12''" ex_content ex_item
      "snd (Storage_Put ex_env Filesystem ex_world ''ab12'' ex_content ex_item)"]
    Put_Get_roundtrip [OF fault_free_ex_env, of S3Storage ex_world "''ab12''" ex_content ex_item
      "snd (Storage_Put ex_env S3Storage ex_world ''ab12'' ex_content ex_item)"]
  show ?thesis
    by (simp add: prod_eq_iff)
qed

text \<open>
  C4. When the blob write of a \<open>Put\<close> succeeds and the metadata write then fails, \<open>Put\<close>
  returns the error of the metadata write, whether or not the removal of the blob fails,
  and when that removal does not fail the blob is gone afterwards. On the filesystem the
  metadata write is the creation of the metadata file followed by \<^verbatim>\<open>Encode\<close> (which
  marshals and writes); on the object store it is the \<^verbatim>\<open>PutObject\<close> of the metadata key,
  which is reached once \<^verbatim>\<open>json.Marshal\<close> has succeeded.
\<close>

theorem Put_metadata_failure_removes_blob:
  "(\<not> fails E OsCreate (filePath ident) \<and> \<not> fails E IoCopy (filePath ident) \<and>
    (fails E OsCreate (metaPath ident) \<or> \<not> marshal_ok (item\<lparr>Size := int (length content)\<rparr>) \<or>
     fails E JsonEncode (metaPath ident)) \<longrightarrow>
      fst (Filesystem_Put E w ident content item) =
        Some (if fails E OsCreate (metaPath ident) then ErrCreateMetaFile else ErrWriteMeta) \<and>
      (\<not> fails E OsRemove (filePath ident) \<longrightarrow>
         map_of (blobs (snd (Filesystem_Put E w ident content item))) (filePath ident) = None)) \<and>
   (\<not> fails E IoCopy (fileKey ident) \<and> \<not> fails E S3PutObject (fileKey ident) \<and>
    marshal_ok (item\<lparr>Size := int (length content)\<rparr>) \<and> fails E S3PutObject (metaKey ident) \<longrightarrow>
      fst (S3Storage_Put E w ident content item) = Some ErrUploadMeta \<and>
      (\<not> fails E S3DeleteObject (fileKey ident) \<longrightarrow>
         map_of (blobs (snd (S3Storage_Put E w ident content item))) (fileKey ident) = None))"
  by (simp add: Filesystem_Put_def S3Storage_Put_def Let_def)

theorem Put_metadata_failure_removes_blob_witness:
  "fst (Filesystem_Put ex_env_meta_fails ex_world ''ab12'' ex_content ex_item) = Some ErrCreateMetaFile \<and>
   map_of (blobs (snd (Filesystem_Put ex_env_meta_fails ex_world ''ab12'' ex_content ex_item)))
     ''files/ab12'' = None \<and>
   fst (S3Storage_Put ex_env_meta_fails ex_world ''ab12'' ex_content ex_item) = Some ErrUploadMeta \<and>
   map_of (blobs (snd (S3Storage_Put ex_env_meta_fails ex_world ''ab12'' ex_content ex_item)))
     ''files/ab12'' = None \<and>
   fst (Filesystem_Put ex_env_cleanup_fails ex_world ''ab12'' ex_content ex_item) = Some ErrCreateMetaFile \<and>
   fst (S3Storage_Put ex_env_cleanup_fails ex_world ''ab12'' ex_content ex_item) = Some ErrUploadMeta"
  using
    Put_metadata_failure_removes_blob [where E = ex_env_meta_fails and ident = "''ab12''"
      and item = ex_item and content = ex_content and w = ex_world]
    Put_metadata_failure_removes_blob [where E = ex_env_cleanup_fails and ident = "''ab12''"
      and item = ex_item and content = ex_content and w = ex_world]
  by (simp add: ex_env_meta_fails_def ex_env_cleanup_fails_def ex_item_def marshal_ok_def
        filePath_def metaPath_def fileKey_def metaKey_def)

subsection \<open>Delete and Get\<close>

text \<open>
  C6. On both backends \<open>Delete\<close> never returns an error, whatever the store holds and also
  when it is called a second time; and when no primitive operation fails, \<open>Get\<close> of the
  id after \<open>Delete\<close> fails with the error "item not found".
\<close>

theorem Delete_then_Get:
  "fst (Storage_Delete E st w ident) = None \<and>
   fst (Storage_Delete E st (snd (Storage_Delete E st w ident)) ident) = None \<and>
   (fault_free E \<longrightarrow>
      fst (Storage_Get E st (snd (Storage_Delete E st w ident)) ident) = Inl ErrItemNotFound)"
  by (cases st)
     (simp_all add: Storage_Delete_def Filesystem_Delete_def S3Storage_Delete_def
        Storage_Get_def Filesystem_Get_def Filesystem_GetMeta_def
        S3Storage_Get_def S3Storage_GetMeta_def fault_free_def)

theorem Delete_then_Get_witness:
  "fault_free ex_env \<and>
   fst (Storage_Get ex_env Filesystem ex_stored ''ab12'') = Inr (ex_content, ex_item\<lparr>Size := 5\<rparr>) \<and>
   fst (Storage_Delete ex_env Filesystem ex_stored ''ab12'') = None \<and>
   fst (Storage_Get ex_env Filesystem (snd (Storage_Delete ex_env Filesystem ex_stored ''ab12'')) ''ab12'') =
     Inl ErrItemNotFound \<and>
   fst (Storage_Get ex_env S3Storage ex_stored ''ab12'') = Inr (ex_content, ex_item\<lparr>Size := 5\<rparr>) \<and>
   fst (Storage_Delete ex_env S3Storage ex_stored ''ab12'') = None \<and>
   fst (Storage_Get ex_env S3Storage (snd (Storage_Delete ex_env S3Storage ex_stored ''ab12'')) ''ab12'') =
     Inl ErrItemNotFound"
proof -
  have "fst (Storage_Get ex_env Filesystem ex_stored ''ab12'') = Inr (ex_content, ex_item\<lparr>Size := 5\<rparr>)"
    by (simp add: Storage_Get_def Filesystem_Get_def Filesystem_GetMeta_def ex_env_def
          ex_stored_def filePath_def metaPath_def)
  moreover
  have "fst (Storage_Get ex_env S3Storage ex_stored ''ab12'') = Inr (ex_content, ex_item\<lparr>Size := 5\<rparr>)"
    by (simp add: Storage_Get_def S3Storage_Get_def S3Storage_GetMeta_def ex_env_def
          ex_stored_def fileKey_def metaKey_def)
  ultimately show ?thesis
    using fault_free_ex_env
      Delete_then_Get [of ex_env Filesystem ex_stored "''ab12''"]
      Delete_then_Get [of ex_env S3Storage ex_stored "''ab12''"]
    by simp
qed

text \<open>
  C7. When no primitive operation fails: \<open>Get\<close> of an id whose metadata record is absent
  fails with "item not found"; \<open>Get\<close> of an id whose metadata record exists while the blob
  is absent fails with another error, which is "file not found" on the filesystem and
  "failed to get file" on the object store when the record decodes (and the decoding error
  when it does not).
\<close>

theorem Get_missing_metadata_or_blob:
  assumes "fault_free E"
  shows
    "(map_of (docs w) (metaPath ident) = None \<longrightarrow>
        Filesystem_Get E w ident = Inl ErrItemNotFound) \<and>
     (map_of (docs w) (metaKey ident) = None \<longrightarrow>
        S3Storage_Get E w ident = Inl ErrItemNotFound) \<and>
     (map_of (docs w) (metaPath ident) = Some d \<and> map_of (blobs w) (filePath ident) = None \<longrightarrow>
        Filesystem_Get E w ident =
          Inl (case d of Json item \<Rightarrow> ErrFileNotFound | Malformed \<Rightarrow> ErrReadMeta) \<and>
        Filesystem_Get E w ident \<noteq> Inl ErrItemNotFound) \<and>
     (map_of (docs w) (metaKey ident) = Some d \<and> map_of (blobs w) (fileKey ident) = None \<longrightarrow>
        S3Storage_Get E w ident =
          Inl (case d of Json item \<Rightarrow> ErrGetFile | Malformed \<Rightarrow> ErrDecodeMeta) \<and>
        S3Storage_Get E w ident \<noteq> Inl ErrItemNotFound)"
  using assms
  by (cases d)
     (simp_all add: Filesystem_Get_def Filesystem_GetMeta_def
        S3Storage_Get_def S3Storage_GetMeta_def fault_free_def)

theorem Get_missing_metadata_or_blob_witness:
  "fault_free ex_env \<and>
   Filesystem_Get ex_env ex_world ''ab12'' = Inl ErrItemNotFound \<and>
   S3Storage_Get ex_env ex_world ''ab12'' = Inl ErrItemNotFound \<and>
   Filesystem_Get ex_env ex_meta_only ''ab12'' = Inl ErrFileNotFound \<and>
   S3Storage_Get ex_env ex_meta_only ''ab12'' = Inl ErrGetFile"
  using fault_free_ex_env
    Get_missing_metadata_or_blob [OF fault_free_ex_env, of ex_world "''ab12''" Malformed]
    Get_missing_metadata_or_blob [OF fault_free_ex_env, of ex_meta_only "''ab12''"
      "Json (ex_item\<lparr>Size := 5\<rparr>)"]
  by (simp add: ex_world_def ex_meta_only_def filePath_def metaPath_def fileKey_def metaKey_def)

subsection \<open>What Put and Close leave untouched\<close>

lemma keys_are_paths: "fileKey ident = filePath ident" "metaKey ident = metaPath ident"
  by (simp_all add: fileKey_def filePath_def metaKey_def metaPath_def)

lemma Filesystem_Put_calls [simp]:
  "calls (snd (Filesystem_Put E w ident content item)) = calls w"
  by (simp add: Filesystem_Put_def Let_def os_Remove_def)

lemma S3Storage_Put_calls [simp]:
  "calls (snd (S3Storage_Put E w ident content item)) = calls w"
  by (simp add: S3Storage_Put_def Let_def s3_DeleteObject_def)

lemma Storage_Put_calls:
  "calls (snd (Storage_Put E st w ident content item)) = calls w @ [PutCall ident content item]"
  by (cases st) (simp_all add: Storage_Put_def record_call_def)

lemma generateID_frame [simp]:
  "calls (snd (generateID w)) = calls w" "clock (snd (generateID w)) = clock w"
  "blobs (snd (generateID w)) = blobs w" "docs (snd (generateID w)) = docs w"
  by (simp_all add: generateID_def rand_Read_def)

lemma hex_EncodeToString_length: "length (hex_EncodeToString bs) = 2 * length bs"
  by (induction bs) (simp_all add: hex_EncodeToString_def hex_byte_def)

lemma generateID_length: "length (fst (generateID w)) = 24"
  by (simp add: generateID_def rand_Read_def hex_EncodeToString_length)

lemma marshal_ok_Size [simp]: "marshal_ok (item\<lparr>Size := n\<rparr>) = marshal_ok item"
  by (simp add: marshal_ok_def)

lemma Storage_Put_fault_free:
  "fault_free E \<Longrightarrow> marshal_ok item \<Longrightarrow> fst (Storage_Put E st w ident content item) = None"
  by (cases st)
     (simp_all add: Storage_Put_def Filesystem_Put_def S3Storage_Put_def fault_free_def Let_def)

lemma Filesystem_Put_frame:
  assumes "k \<noteq> filePath ident" and "k \<noteq> metaPath ident"
  shows "map_of (blobs (snd (Filesystem_Put E w ident content item))) k = map_of (blobs w) k"
    and "map_of (docs (snd (Filesystem_Put E w ident content item))) k = map_of (docs w) k"
  using assms by (simp_all add: Filesystem_Put_def Let_def update_conv')

lemma S3Storage_Put_frame:
  assumes "k \<noteq> fileKey ident" and "k \<noteq> metaKey ident"
  shows "map_of (blobs (snd (S3Storage_Put E w ident content item))) k = map_of (blobs w) k"
    and "map_of (docs (snd (S3Storage_Put E w ident content item))) k = map_of (docs w) k"
  using assms by (simp_all add: S3Storage_Put_def Let_def update_conv')

lemma Storage_Put_frame:
  assumes "k \<noteq> filePath ident" and "k \<noteq> metaPath ident"
  shows "map_of (blobs (snd (Storage_Put E st w ident content item))) k = map_of (blobs w) k"
    and "map_of (docs (snd (Storage_Put E st w ident content item))) k = map_of (docs w) k"
  using assms
  by (simp_all add: Storage_Put_def Filesystem_Put_frame S3Storage_Put_frame
        keys_are_paths [symmetric] record_call_def split: Storage.splits)

lemma Storage_Get_cong:
  assumes "map_of (blobs w') (filePath ident) = map_of (blobs w) (filePath ident)"
    and "map_of (docs w') (metaPath ident) = map_of (docs w) (metaPath ident)"
  shows "fst (Storage_Get E st w' ident) = fst (Storage_Get E st w ident)"
    and "fst (Storage_GetMeta E st w' ident) = fst (Storage_GetMeta E st w ident)"
  using assms
  by (simp_all add: Storage_Get_def Storage_GetMeta_def Filesystem_Get_def
        Filesystem_GetMeta_def S3Storage_Get_def S3Storage_GetMeta_def keys_are_paths
        split: Storage.splits sum.splits option.splits)

lemma Close_open:
  "\<not> wf_closed f \<Longrightarrow>
   Close L E st w f =
     ((fst (Storage_Put E st (snd (generateID w)) (fst (generateID w)) (wf_buffer f)
              \<lparr>ID = fst (generateID w), Filename = wf_name f,
               ContentType = detectContentType L (wf_name f) (wf_buffer f),
               Size = 0, RenderMode = ''auto'', CreatedAt = clock w,
               OwnerToken = wf_token f\<rparr>),
       f\<lparr>wf_closed := True,
         wf_buffer := drop (Storage_Put_read E st (fst (generateID w)) (wf_buffer f)) (wf_buffer f)\<rparr>),
      snd (Storage_Put E st (snd (generateID w)) (fst (generateID w)) (wf_buffer f)
              \<lparr>ID = fst (generateID w), Filename = wf_name f,
               ContentType = detectContentType L (wf_name f) (wf_buffer f),
               Size = 0, RenderMode = ''auto'', CreatedAt = clock w,
               OwnerToken = wf_token f\<rparr>))"
  by (simp add: Close_def Let_def split_beta)

lemma Close_frame:
  assumes "ident' \<noteq> fst (generateID w)"
  shows "map_of (blobs (snd (Close L E st w f))) (filePath ident') = map_of (blobs w) (filePath ident')"
    and "map_of (docs (snd (Close L E st w f))) (metaPath ident') = map_of (docs w) (metaPath ident')"
  using assms
  by (simp_all add: Close_def Let_def split_beta Storage_Put_frame)

lemma Close_Get_frame:
  assumes "ident' \<noteq> fst (generateID w)"
  shows "fst (Storage_Get E st (snd (Close L E st w f)) ident') = fst (Storage_Get E st w ident')"
    and "fst (Storage_GetMeta E st (snd (Close L E st w f)) ident') =
         fst (Storage_GetMeta E st w ident')"
  using Close_frame [OF assms] by (rule Storage_Get_cong)+

lemma OpenFile_write:
  assumes "cleanPath name0 \<noteq> []" "cleanPath name0 \<noteq> ''/''"
    and "flag AND O_CREATE \<noteq> 0 \<or> flag AND O_WRONLY \<noteq> 0 \<or> flag AND O_RDWR \<noteq> 0"
  shows "OpenFile E st m w token name0 flag =
        (Inr (WriteHandle \<lparr>wf_name = cleanPath name0, wf_token = token, wf_buffer = [],
                            wf_maxFileSize = m, wf_closed = False\<rparr>), w)"
  using assms by (simp add: OpenFile_def createFile_def Let_def)

lemma generateID_ex_random: "fst (generateID ex_random) = ''ab12cd34ef567890abcdef01''"
  by code_simp

lemma Close_commit:
  assumes "\<not> wf_closed f" and "fault_free E"
    and "marshal_ok \<lparr>ID = fst (generateID w), Filename = wf_name f,
                      ContentType = detectContentType L (wf_name f) (wf_buffer f),
                      Size = 0, RenderMode = ''auto'', CreatedAt = clock w,
                      OwnerToken = wf_token f\<rparr>"
  shows "fst (fst (Close L E st w f)) = None"
    and "fst (Storage_Get E st (snd (Close L E st w f)) (fst (generateID w))) =
           Inr (wf_buffer f,
                \<lparr>ID = fst (generateID w), Filename = wf_name f,
                 ContentType = detectContentType L (wf_name f) (wf_buffer f),
                 Size = int (length (wf_buffer f)), RenderMode = ''auto'', CreatedAt = clock w,
                 OwnerToken = wf_token f\<rparr>)"
proof -
  let ?ident = "fst (generateID w)"
  let ?item = "\<lparr>ID = ?ident, Filename = wf_name f,
                 ContentType = detectContentType L (wf_name f) (wf_buffer f),
                 Size = 0, RenderMode = ''auto'', CreatedAt = clock w,
                 OwnerToken = wf_token f\<rparr>"
  let ?put = "Storage_Put E st (snd (generateID w)) ?ident (wf_buffer f) ?item"
  have c: "Close L E st w f =
             ((fst ?put,
               f\<lparr>wf_closed := True,
                 wf_buffer := drop (Storage_Put_read E st ?ident (wf_buffer f)) (wf_buffer f)\<rparr>),
              snd ?put)"
    using assms(1) by (rule Close_open)
  from assms(2,3) have ok: "fst ?put = None"
    by (rule Storage_Put_fault_free)
  then have "?put = (None, snd ?put)"
    by (simp add: prod_eq_iff)
  from Storage_Put_then_Get [OF assms(2) this]
  have get: "fst (Storage_Get E st (snd ?put) ?ident) =
               Inr (wf_buffer f, ?item\<lparr>Size := int (length (wf_buffer f))\<rparr>)" .
  from c ok show "fst (fst (Close L E st w f)) = None"
    by simp
  from c get show "fst (Storage_Get E st (snd (Close L E st w f)) (fst (generateID w))) =
           Inr (wf_buffer f,
                \<lparr>ID = fst (generateID w), Filename = wf_name f,
                 ContentType = detectContentType L (wf_name f) (wf_buffer f),
                 Size = int (length (wf_buffer f)), RenderMode = ''auto'', CreatedAt = clock w,
                 OwnerToken = wf_token f\<rparr>)"
    by simp
qed

lemma detectContentType_ex: "detectContentType ex_libs ''a.txt'' [] = ''text/plain; charset=utf-8''"
  by code_simp

lemma marshal_ok_ex_new_item: "marshal_ok ex_new_item"
  by (simp add: marshal_ok_def ex_new_item_def)

lemma cleanPath_ex: "cleanPath ''/a.txt'' = ''a.txt''"
  by code_simp

lemma write_flags_ex: "(O_RDWR OR O_CREATE) AND O_CREATE \<noteq> 0"
  by code_simp

lemma Storage_Get_ex_random:
  "fst (Storage_Get ex_env Filesystem ex_random ''ab12'') = Inr (ex_content, ex_item\<lparr>Size := 5\<rparr>)"
  by code_simp

lemma Storage_Put_entropy_clock [simp]:
  "entropy (snd (Storage_Put E st w ident content item)) = entropy w"
  "clock (snd (Storage_Put E st w ident content item)) = clock w"
  by (simp_all add: Storage_Put_def Filesystem_Put_def S3Storage_Put_def os_Remove_def
        s3_DeleteObject_def record_call_def Let_def split: Storage.splits)

lemma Storage_Put_read_fault_free:
  "fault_free E \<Longrightarrow> Storage_Put_read E st ident content = length content"
  by (simp add: Storage_Put_read_def Filesystem_Put_read_def S3Storage_Put_read_def
        fault_free_def split: Storage.splits)

lemma generateID_value:
  "fst (generateID w) =
     concat (map (\<lambda>b. [''0123456789abcdef'' ! unat (drop_bit 4 b),
                       ''0123456789abcdef'' ! unat (b AND 15)])
       (take 12 (entropy w @ replicate 12 0)))"
  "entropy (snd (generateID w)) = drop 12 (entropy w)"
proof -
  have "hex_byte = (\<lambda>b. [''0123456789abcdef'' ! unat (drop_bit 4 b),
                           ''0123456789abcdef'' ! unat (b AND 15)])"
    by (rule ext) (simp add: hex_byte_def hextable_def)
  then show "fst (generateID w) =
     concat (map (\<lambda>b. [''0123456789abcdef'' ! unat (drop_bit 4 b),
                       ''0123456789abcdef'' ! unat (b AND 15)])
       (take 12 (entropy w @ replicate 12 0)))"
    by (simp add: generateID_def rand_Read_def hex_EncodeToString_def)
  show "entropy (snd (generateID w)) = drop 12 (entropy w)"
    by (simp add: generateID_def rand_Read_def)
qed

lemma Ext_scan_dot:
  "CHR ''.'' \<notin> set xs \<Longrightarrow> CHR ''/'' \<notin> set xs \<Longrightarrow>
   Ext_scan (xs @ CHR ''.'' # rest) acc = CHR ''.'' # rev xs @ acc"
  by (induction xs arbitrary: acc) auto

lemma Ext_scan_none:
  "CHR ''.'' \<notin> set xs \<Longrightarrow> CHR ''/'' \<notin> set xs \<Longrightarrow> rest = [] \<or> hd rest = CHR ''/'' \<Longrightarrow>
   Ext_scan (xs @ rest) acc = []"
proof (induction xs arbitrary: acc)
  case Nil
  then show ?case by (cases rest) auto
next
  case (Cons x xs)
  then show ?case by auto
qed

lemma filepath_Ext_dot:
  "CHR ''.'' \<notin> set e \<Longrightarrow> CHR ''/'' \<notin> set e \<Longrightarrow>
   filepath_Ext (stem @ CHR ''.'' # e) = CHR ''.'' # e"
  using Ext_scan_dot [of "rev e" "rev stem" "[]"] by (simp add: filepath_Ext_def)

lemma filepath_Ext_none:
  assumes "CHR ''.'' \<notin> set e" and "CHR ''/'' \<notin> set e" and "pre = [] \<or> last pre = CHR ''/''"
  shows "filepath_Ext (pre @ e) = []"
proof -
  from assms(3) have "rev pre = [] \<or> hd (rev pre) = CHR ''/''"
    by (auto simp: hd_rev)
  with assms(1,2) Ext_scan_none [of "rev e" "rev pre" "[]"] show ?thesis
    by (simp add: filepath_Ext_def)
qed

lemma detectContentType_chain:
  "detectContentType L filename content =
     (let ext = filepath_Ext filename; low = ToLower L ext in
      if filename \<noteq> [] \<and> TypeByExtension L ext \<noteq> [] then TypeByExtension L ext
      else if filename \<noteq> [] \<and> low \<in> {''.md'', ''.markdown''} then ''text/markdown''
      else if filename \<noteq> [] \<and> low = ''.ts'' then ''text/typescript''
      else if filename \<noteq> [] \<and> low = ''.tsx'' then ''text/tsx''
      else if filename \<noteq> [] \<and> low = ''.jsx'' then ''text/jsx''
      else if filename \<noteq> [] \<and> low \<in> {''.yaml'', ''.yml''} then ''text/yaml''
      else if filename \<noteq> [] \<and> low = ''.toml'' then ''text/toml''
      else if filename \<noteq> [] \<and> low = ''.go'' then ''text/x-go''
      else if filename \<noteq> [] \<and> low = ''.rs'' then ''text/x-rust''
      else if filename \<noteq> [] \<and> low = ''.py'' then ''text/x-python''
      else if filename \<noteq> [] \<and> low = ''.rb'' then ''text/x-ruby''
      else if filename \<noteq> [] \<and> low \<in> {''.sh'', ''.bash''} then ''text/x-shellscript''
      else if filename \<noteq> [] \<and> low = ''.sql'' then ''text/x-sql''
      else if filename \<noteq> [] \<and> low = ''.dockerfile'' then ''text/x-dockerfile''
      else if content \<noteq> [] then DetectContentType L content
      else ''text/plain'')"
proof (cases "filename = []")
  case True
  then show ?thesis
    by (simp add: detectContentType_def by_extension_def)
next
  case False
  then show ?thesis
    by (simp add: detectContentType_def by_extension_def ext_switch_def Let_def)
qed

subsection \<open>The id is the hexadecimal encoding of the random bytes\<close>

lemma nibble_bounds: "unat (drop_bit 4 (b :: byte)) < 16" "unat (b AND 15) < 16"
proof -
  have "unat b < 2 ^ LENGTH(8)" by (rule unsigned_less)
  then have "unat b < 256" by simp
  moreover have "unat (drop_bit 4 b) = unat b div 16"
    by (simp add: unat_drop_bit_eq drop_bit_eq_div unat_div)
  ultimately show "unat (drop_bit 4 b) < 16"
    by simp
  have "b AND 15 \<le> 15" by (rule word_and_le1)
  then show "unat (b AND 15) < 16"
    by (simp add: word_le_nat_alt)
qed

lemma hexdigit_inj:
  "i < 16 \<Longrightarrow> j < 16 \<Longrightarrow> ''0123456789abcdef'' ! i = ''0123456789abcdef'' ! j \<Longrightarrow> i = j"
  by (rule nth_eq_iff_index_eq [THEN iffD1, of "''0123456789abcdef''"]) simp_all

lemma byte_from_nibbles:
  "drop_bit 4 (a :: byte) = drop_bit 4 b \<Longrightarrow> a AND 15 = b AND 15 \<Longrightarrow> a = b"
proof -
  assume h: "drop_bit 4 a = drop_bit 4 b" and l: "a AND 15 = b AND 15"
  have m: "(15 :: byte) = mask 4" by (simp add: mask_eq_exp_minus_1)
  from l have "take_bit 4 a = take_bit 4 b"
    by (simp add: m take_bit_eq_mask)
  with h bits_ident [of 4 a] bits_ident [of 4 b] show "a = b"
    by metis
qed


lemma hex_byte_inj: "hex_byte a = hex_byte b \<Longrightarrow> a = b"
proof -
  assume "hex_byte a = hex_byte b"
  then have hi: "''0123456789abcdef'' ! unat (drop_bit 4 a) = ''0123456789abcdef'' ! unat (drop_bit 4 b)"
    and lo: "''0123456789abcdef'' ! unat (a AND 15) = ''0123456789abcdef'' ! unat (b AND 15)"
    unfolding hex_byte_def hextable_def by (simp_all only: list.inject)
  from hi have "unat (drop_bit 4 a) = unat (drop_bit 4 b)"
    by (rule hexdigit_inj [OF nibble_bounds(1) nibble_bounds(1)])
  then have h: "drop_bit 4 a = drop_bit 4 b"
    by (rule word_unat_eq_iff [THEN iffD2])
  from lo have "unat (a AND 15) = unat (b AND 15)"
    by (rule hexdigit_inj [OF nibble_bounds(2) nibble_bounds(2)])
  then have l: "a AND 15 = b AND 15"
    by (rule word_unat_eq_iff [THEN iffD2])
  from h l show "a = b"
    by (rule byte_from_nibbles)
qed

lemma hex_EncodeToString_inj:
  "length xs = length ys \<Longrightarrow> hex_EncodeToString xs = hex_EncodeToString ys \<Longrightarrow> xs = ys"
proof (induction xs ys rule: list_induct2)
  case Nil
  then show ?case by simp
next
  case (Cons x xs y ys)
  from Cons.prems have "hex_byte x @ hex_EncodeToString xs = hex_byte y @ hex_EncodeToString ys"
    by (simp add: hex_EncodeToString_def)
  moreover have "length (hex_byte x) = length (hex_byte y)"
    by (simp add: hex_byte_def)
  ultimately have "hex_byte x = hex_byte y" "hex_EncodeToString xs = hex_EncodeToString ys"
    by simp_all
  with Cons.IH show ?case
    by (simp add: hex_byte_inj)
qed

lemma hex_byte_fun:
  "hex_byte = (\<lambda>b. [''0123456789abcdef'' ! unat (drop_bit 4 b),
                      ''0123456789abcdef'' ! unat (b AND 15)])"
  by (rule ext) (simp add: hex_byte_def hextable_def)

lemma hex_inj_explicit:
  assumes "length bs = length bs'"
    and "concat (map (\<lambda>b :: byte. [''0123456789abcdef'' ! unat (drop_bit 4 b),
                       ''0123456789abcdef'' ! unat (b AND 15)]) bs) =
   concat (map (\<lambda>b. [''0123456789abcdef'' ! unat (drop_bit 4 b),
                       ''0123456789abcdef'' ! unat (b AND 15)]) bs')"
  shows "bs = bs'"
  using assms hex_EncodeToString_inj [of bs bs']
  unfolding hex_EncodeToString_def hex_byte_fun by blast

lemma ext_cases:
  "(\<forall>stem e. name = stem @ CHR ''.'' # e \<and> CHR ''.'' \<notin> set e \<and> CHR ''/'' \<notin> set e \<longrightarrow>
      filepath_Ext name = CHR ''.'' # e) \<and>
   (\<forall>pre e. name = pre @ e \<and> (pre = [] \<or> last pre = CHR ''/'') \<and>
      CHR ''.'' \<notin> set e \<and> CHR ''/'' \<notin> set e \<longrightarrow> filepath_Ext name = [])"
proof (intro conjI allI impI)
  fix stem e
  assume "name = stem @ CHR ''.'' # e \<and> CHR ''.'' \<notin> set e \<and> CHR ''/'' \<notin> set e"
  then show "filepath_Ext name = CHR ''.'' # e"
    using filepath_Ext_dot [of e stem] by simp
next
  fix pre e
  assume "name = pre @ e \<and> (pre = [] \<or> last pre = CHR ''/'') \<and>
      CHR ''.'' \<notin> set e \<and> CHR ''/'' \<notin> set e"
  then show "filepath_Ext name = []"
    using filepath_Ext_none [of e pre] by blast
qed

lemma Close_first:
  fixes f :: davWriteFile and w :: world and L :: libs and E :: env and st :: Storage
  assumes "\<not> wf_closed f"
  defines "ident \<equiv> fst (generateID w)"
  defines "item \<equiv> \<lparr>ID = fst (generateID w), Filename = wf_name f,
                   ContentType = detectContentType L (wf_name f) (wf_buffer f),
                   Size = 0, RenderMode = ''auto'', CreatedAt = clock w,
                   OwnerToken = wf_token f\<rparr>"
  defines "f' \<equiv> snd (fst (Close L E st w f))"
  defines "w' \<equiv> snd (Close L E st w f)"
  shows "f' = f\<lparr>wf_closed := True,
                  wf_buffer := drop (Storage_Put_read E st ident (wf_buffer f)) (wf_buffer f)\<rparr> \<and>
          length ident = 24 \<and>
          entropy w' = drop 12 (entropy w) \<and>
          calls w' = calls w @ [PutCall ident (wf_buffer f) item] \<and>
          Close L E st w' f' = ((None, f'), w') \<and>
          (fault_free E \<and> - 62167219200 * 1000000000 \<le> clock w \<and> clock w < 253402300800 * 1000000000 \<longrightarrow>
             fst (fst (Close L E st w f)) = None \<and>
             wf_buffer f' = [] \<and>
             fst (Storage_Get E st w' ident) =
               Inr (wf_buffer f, item\<lparr>Size := int (length (wf_buffer f))\<rparr>))"
proof -
  let ?put = "Storage_Put E st (snd (generateID w)) ident (wf_buffer f) item"
  let ?f' = "f\<lparr>wf_closed := True,
                wf_buffer := drop (Storage_Put_read E st ident (wf_buffer f)) (wf_buffer f)\<rparr>"
  have c: "Close L E st w f = ((fst ?put, ?f'), snd ?put)"
    unfolding ident_def item_def using assms(1) by (rule Close_open)
  then have f': "f' = ?f'" and w': "w' = snd ?put"
    by (simp_all add: f'_def w'_def)
  have calls: "calls w' = calls w @ [PutCall ident (wf_buffer f) item]"
    by (simp add: w' Storage_Put_calls)
  have ent: "entropy w' = drop 12 (entropy w)"
    by (simp add: w' generateID_value(2))
  have again: "Close L E st w' f' = ((None, f'), w')"
    by (simp add: f' Close_def)
  have len: "length ident = 24"
    by (simp add: ident_def generateID_length)
  have commit: "fst (fst (Close L E st w f)) = None \<and> wf_buffer f' = [] \<and>
        fst (Storage_Get E st w' ident) =
          Inr (wf_buffer f, item\<lparr>Size := int (length (wf_buffer f))\<rparr>)"
    if ff: "fault_free E"
      and lo: "- 62167219200 * 1000000000 \<le> clock w" and hi: "clock w < 253402300800 * 1000000000"
  proof -
    from lo hi have m: "marshal_ok item"
      by (simp add: marshal_ok_def item_def)
    from Close_commit [OF assms(1) ff, of w L st] m
    have "fst (fst (Close L E st w f)) = None" and
      "fst (Storage_Get E st w' ident) =
          Inr (wf_buffer f, item\<lparr>Size := int (length (wf_buffer f))\<rparr>)"
      by (simp_all add: item_def ident_def w'_def)
    moreover from ff have "wf_buffer f' = []"
      by (simp add: f' Storage_Put_read_fault_free)
    ultimately show ?thesis by simp
  qed
  from f' len ent calls again commit show ?thesis
    by blast
qed

lemma ident_ex_random:
  "concat (map (\<lambda>b. [''0123456789abcdef'' ! unat (drop_bit 4 b),
                       ''0123456789abcdef'' ! unat (b AND 15)])
     (take 12 (entropy ex_random @ replicate 12 0))) = ''ab12cd34ef567890abcdef01''"
  using generateID_value(1) [of ex_random, symmetric] by (simp add: generateID_ex_random)

lemma filepath_Ext_ex: "filepath_Ext ''a.txt'' = ''.txt''"
  by code_simp

lemma TypeByExtension_ex: "TypeByExtension ex_libs ''.txt'' = ''text/plain; charset=utf-8''"
  by (simp add: ex_libs_def)

lemma ex_random_fields: "clock ex_random = 1700000000000000001" "calls ex_random = []"
  by (simp_all add: ex_random_def)

lemma Close_new_item:
  assumes "\<not> wf_closed f" and "fault_free E"
    and "- 62167219200 * 1000000000 \<le> clock w" and "clock w < 253402300800 * 1000000000"
  shows "case fst (Storage_Get E st (snd (Close L E st w f)) (fst (generateID w))) of
           Inl e \<Rightarrow> False
         | Inr (data, item) \<Rightarrow>
             data = wf_buffer f \<and> ID item = fst (generateID w) \<and> Filename item = wf_name f \<and>
             OwnerToken item = wf_token f \<and> Size item = int (length (wf_buffer f))"
proof -
  have "marshal_ok \<lparr>ID = fst (generateID w), Filename = wf_name f,
                      ContentType = detectContentType L (wf_name f) (wf_buffer f),
                      Size = 0, RenderMode = ''auto'', CreatedAt = clock w,
                      OwnerToken = wf_token f\<rparr>"
    using assms(3,4) by (simp add: marshal_ok_def)
  from Close_commit(2) [OF assms(1,2) this] show ?thesis
    by simp
qed

subsection \<open>Write handle\<close>

lemma Write_over_cap_leaves_handle:
  "0 < wf_maxFileSize f \<Longrightarrow> wf_maxFileSize f < int (length (wf_buffer f) + length p) \<Longrightarrow>
   Write f p = ((0, Some ErrFileTooLarge), f)"
  by (simp add: Write_def)

text \<open>
  C3. A \<open>Write\<close> whose bytes would make the buffered length exceed the cap returns the
  error "file too large" and leaves the buffer as it was (\<open>Write_over_cap_leaves_handle\<close>),
  but the write is not aborted and the bytes buffered before are committed all the same:
  \<open>Write\<close> records nothing of the rejection and \<open>Close\<close> tests only whether the handle is
  closed. On a handle with a cap of four bytes, after an accepted \<open>Write\<close> of three bytes
  and a rejected \<open>Write\<close> of two, \<open>Close\<close> returns no error and calls \<open>Put\<close> with the three
  buffered bytes; the store, empty before, then holds and lists an item of size 3.
\<close>

theorem Close_after_rejected_Write_commits:
  "Write ex_capped [1, 2, 3] = ((3, None), ex_handle) \<and>
   Write ex_handle [4, 5] = ((0, Some ErrFileTooLarge), ex_handle) \<and>
   fst (fst (Close ex_libs ex_env Filesystem ex_world
               (snd (Write (snd (Write ex_capped [1, 2, 3])) [4, 5])))) = None \<and>
   calls (snd (Close ex_libs ex_env Filesystem ex_world
               (snd (Write (snd (Write ex_capped [1, 2, 3])) [4, 5])))) =
     [PutCall ''000000000000000000000000'' [1, 2, 3]
        \<lparr>ID = ''000000000000000000000000'', Filename = ''a.txt'',
         ContentType = ''text/plain; charset=utf-8'', Size = 0, RenderMode = ''auto'',
         CreatedAt = 1700000000000000000, OwnerToken = ''tok''\<rparr>] \<and>
   fst (Storage_Get ex_env Filesystem
          (snd (Close ex_libs ex_env Filesystem ex_world
                  (snd (Write (snd (Write ex_capped [1, 2, 3])) [4, 5]))))
          ''000000000000000000000000'') =
     Inr ([1, 2, 3],
          \<lparr>ID = ''000000000000000000000000'', Filename = ''a.txt'',
           ContentType = ''text/plain; charset=utf-8'', Size = 3, RenderMode = ''auto'',
           CreatedAt = 1700000000000000000, OwnerToken = ''tok''\<rparr>) \<and>
   fst (Storage_List ex_env Filesystem
          (snd (Close ex_libs ex_env Filesystem ex_world
                  (snd (Write (snd (Write ex_capped [1, 2, 3])) [4, 5])))) ''tok'') =
     Inr [\<lparr>ID = ''000000000000000000000000'', Filename = ''a.txt'',
           ContentType = ''text/plain; charset=utf-8'', Size = 3, RenderMode = ''auto'',
           CreatedAt = 1700000000000000000, OwnerToken = ''tok''\<rparr>]"
  by code_simp

subsection \<open>Close\<close>

text \<open>
  C8. \<open>Close\<close> on a closed handle returns no error and changes nothing: neither the
  handle nor the world, so no \<open>Put\<close> is called. \<open>Close\<close> on an open handle marks it closed,
  takes twelve bytes from the random source and calls \<open>Put\<close> exactly once, with the id
  that is the lowercase hexadecimal encoding of those bytes (24 characters; different
  bytes give different ids), with the buffered bytes, and with an item whose render mode
  is \<open>auto\<close> and whose content type is found from the handle's name first (the MIME table
  for its extension, then the fixed table of extensions) and, failing that, by sniffing
  the buffered bytes when there are any, \<open>text/plain\<close> otherwise. The bytes that \<open>Put\<close> has
  read are gone from the handle's buffer; closing again is a no-op. When no primitive
  operation fails (and the clock is in the range that JSON can represent), this first
  \<open>Close\<close> returns no error, empties the buffer, and \<open>Get\<close> of the new id returns the
  buffered bytes and the item with \<open>Size\<close> their length: the empty blob and size 0 for a
  handle that was never written. The last conjuncts say what the extension of a name and
  the encoding are.
\<close>

theorem Close_commits_once:
  "(wf_closed f \<longrightarrow> Close L E st w f = ((None, f), w)) \<and>
   (\<not> wf_closed f \<longrightarrow>
      (let ident = concat (map (\<lambda>b. [''0123456789abcdef'' ! unat (drop_bit 4 b),
                                       ''0123456789abcdef'' ! unat (b AND 15)])
                     (take 12 (entropy w @ replicate 12 0)));
           ext = filepath_Ext (wf_name f);
           low = ToLower L ext;
           ctype =
             (if wf_name f \<noteq> [] \<and> TypeByExtension L ext \<noteq> [] then TypeByExtension L ext
              else if wf_name f \<noteq> [] \<and> low \<in> {''.md'', ''.markdown''} then ''text/markdown''
              else if wf_name f \<noteq> [] \<and> low = ''.ts'' then ''text/typescript''
              else if wf_name f \<noteq> [] \<and> low = ''.tsx'' then ''text/tsx''
              else if wf_name f \<noteq> [] \<and> low = ''.jsx'' then ''text/jsx''
              else if wf_name f \<noteq> [] \<and> low \<in> {''.yaml'', ''.yml''} then ''text/yaml''
              else if wf_name f \<noteq> [] \<and> low = ''.toml'' then ''text/toml''
              else if wf_name f \<noteq> [] \<and> low = ''.go'' then ''text/x-go''
              else if wf_name f \<noteq> [] \<and> low = ''.rs'' then ''text/x-rust''
              else if wf_name f \<noteq> [] \<and> low = ''.py'' then ''text/x-python''
              else if wf_name f \<noteq> [] \<and> low = ''.rb'' then ''text/x-ruby''
              else if wf_name f \<noteq> [] \<and> low \<in> {''.sh'', ''.bash''} then ''text/x-shellscript''
              else if wf_name f \<noteq> [] \<and> low = ''.sql'' then ''text/x-sql''
              else if wf_name f \<noteq> [] \<and> low = ''.dockerfile'' then ''text/x-dockerfile''
              else if wf_buffer f \<noteq> [] then DetectContentType L (wf_buffer f)
              else ''text/plain'');
           item = \<lparr>ID = ident, Filename = wf_name f, ContentType = ctype,
                   Size = 0, RenderMode = ''auto'', CreatedAt = clock w,
                   OwnerToken = wf_token f\<rparr>;
           f' = snd (fst (Close L E st w f));
           w' = snd (Close L E st w f)
       in f' = f\<lparr>wf_closed := True,
                  wf_buffer := drop (Storage_Put_read E st ident (wf_buffer f)) (wf_buffer f)\<rparr> \<and>
          length ident = 24 \<and>
          entropy w' = drop 12 (entropy w) \<and>
          calls w' = calls w @ [PutCall ident (wf_buffer f) item] \<and>
          Close L E st w' f' = ((None, f'), w') \<and>
          (fault_free E \<and> - 62167219200 * 1000000000 \<le> clock w \<and> clock w < 253402300800 * 1000000000 \<longrightarrow>
             fst (fst (Close L E st w f)) = None \<and>
             wf_buffer f' = [] \<and>
             fst (Storage_Get E st w' ident) =
               Inr (wf_buffer f, item\<lparr>Size := int (length (wf_buffer f))\<rparr>)))) \<and>
   (\<forall>stem e. wf_name f = stem @ CHR ''.'' # e \<and> CHR ''.'' \<notin> set e \<and> CHR ''/'' \<notin> set e \<longrightarrow>
      filepath_Ext (wf_name f) = CHR ''.'' # e) \<and>
   (\<forall>pre e. wf_name f = pre @ e \<and> (pre = [] \<or> last pre = CHR ''/'') \<and>
      CHR ''.'' \<notin> set e \<and> CHR ''/'' \<notin> set e \<longrightarrow> filepath_Ext (wf_name f) = []) \<and>
   (\<forall>bs bs'. length bs = length bs' \<and>
      concat (map (\<lambda>b :: byte. [''0123456789abcdef'' ! unat (drop_bit 4 b),
                                ''0123456789abcdef'' ! unat (b AND 15)]) bs) =
      concat (map (\<lambda>b. [''0123456789abcdef'' ! unat (drop_bit 4 b),
                         ''0123456789abcdef'' ! unat (b AND 15)]) bs') \<longrightarrow> bs = bs')"
  (is "?A \<and> ?B \<and> ?C \<and> ?D \<and> ?E")
proof -
  have A: ?A
    by (simp add: Close_def)
  have B: ?B
  proof
    assume "\<not> wf_closed f"
    from Close_first [OF this, where w = w and L = L and E = E and st = st,
        unfolded generateID_value(1) detectContentType_chain [unfolded Let_def]]
    show "let ident = concat (map (\<lambda>b. [''0123456789abcdef'' ! unat (drop_bit 4 b),
                                       ''0123456789abcdef'' ! unat (b AND 15)])
                     (take 12 (entropy w @ replicate 12 0)));
           ext = filepath_Ext (wf_name f);
           low = ToLower L ext;
           ctype =
             (if wf_name f \<noteq> [] \<and> TypeByExtension L ext \<noteq> [] then TypeByExtension L ext
              else if wf_name f \<noteq> [] \<and> low \<in> {''.md'', ''.markdown''} then ''text/markdown''
              else if wf_name f \<noteq> [] \<and> low = ''.ts'' then ''text/typescript''
              else if wf_name f \<noteq> [] \<and> low = ''.tsx'' then ''text/tsx''
              else if wf_name f \<noteq> [] \<and> low = ''.jsx'' then ''text/jsx''
              else if wf_name f \<noteq> [] \<and> low \<in> {''.yaml'', ''.yml''} then ''text/yaml''
              else if wf_name f \<noteq> [] \<and> low = ''.toml'' then ''text/toml''
              else if wf_name f \<noteq> [] \<and> low = ''.go'' then ''text/x-go''
              else if wf_name f \<noteq> [] \<and> low = ''.rs'' then ''text/x-rust''
              else if wf_name f \<noteq> [] \<and> low = ''.py'' then ''text/x-python''
              else if wf_name f \<noteq> [] \<and> low = ''.rb'' then ''text/x-ruby''
              else if wf_name f \<noteq> [] \<and> low \<in> {''.sh'', ''.bash''} then ''text/x-shellscript''
              else if wf_name f \<noteq> [] \<and> low = ''.sql'' then ''text/x-sql''
              else if wf_name f \<noteq> [] \<and> low = ''.dockerfile'' then ''text/x-dockerfile''
              else if wf_buffer f \<noteq> [] then DetectContentType L (wf_buffer f)
              else ''text/plain'');
           item = \<lparr>ID = ident, Filename = wf_name f, ContentType = ctype,
                   Size = 0, RenderMode = ''auto'', CreatedAt = clock w,
                   OwnerToken = wf_token f\<rparr>;
           f' = snd (fst (Close L E st w f));
           w' = snd (Close L E st w f)
       in f' = f\<lparr>wf_closed := True,
                  wf_buffer := drop (Storage_Put_read E st ident (wf_buffer f)) (wf_buffer f)\<rparr> \<and>
          length ident = 24 \<and>
          entropy w' = drop 12 (entropy w) \<and>
          calls w' = calls w @ [PutCall ident (wf_buffer f) item] \<and>
          Close L E st w' f' = ((None, f'), w') \<and>
          (fault_free E \<and> - 62167219200 * 1000000000 \<le> clock w \<and> clock w < 253402300800 * 1000000000 \<longrightarrow>
             fst (fst (Close L E st w f)) = None \<and>
             wf_buffer f' = [] \<and>
             fst (Storage_Get E st w' ident) =
               Inr (wf_buffer f, item\<lparr>Size := int (length (wf_buffer f))\<rparr>))"
      unfolding Let_def .
  qed
  from ext_cases [of "wf_name f"] have C: ?C and D: ?D
    by blast+
  have E: ?E
    using hex_inj_explicit by blast
  from A B C D E show ?thesis
    by (intro conjI)
qed

theorem Close_commits_once_witness:
  "\<not> wf_closed ex_handle \<and> fault_free ex_env \<and>
   - 62167219200 * 1000000000 \<le> clock ex_random \<and> clock ex_random < 253402300800 * 1000000000 \<and>
   fst (fst (Close ex_libs ex_env Filesystem ex_random ex_handle)) = None \<and>
   snd (fst (Close ex_libs ex_env Filesystem ex_random ex_handle)) =
     ex_handle\<lparr>wf_closed := True, wf_buffer := []\<rparr> \<and>
   calls (snd (Close ex_libs ex_env Filesystem ex_random ex_handle)) =
     [PutCall ''ab12cd34ef567890abcdef01'' [1, 2, 3] ex_new_item] \<and>
   fst (Storage_Get ex_env Filesystem (snd (Close ex_libs ex_env Filesystem ex_random ex_handle))
          ''ab12cd34ef567890abcdef01'') = Inr ([1, 2, 3], ex_new_item\<lparr>Size := 3\<rparr>) \<and>
   fst (Storage_Get ex_env S3Storage (snd (Close ex_libs ex_env S3Storage ex_random ex_fresh))
          ''ab12cd34ef567890abcdef01'') = Inr ([], ex_new_item) \<and>
   wf_closed (ex_fresh\<lparr>wf_closed := True\<rparr>) \<and>
   Close ex_libs ex_env S3Storage ex_random (ex_fresh\<lparr>wf_closed := True\<rparr>) =
     ((None, ex_fresh\<lparr>wf_closed := True\<rparr>), ex_random) \<and>
   filepath_Ext (wf_name ex_handle) = ''.txt''"
proof -
  note first = Close_commits_once [THEN conjunct2, THEN conjunct1, rule_format, unfolded Let_def]
  have item: "\<lparr>ID = ''ab12cd34ef567890abcdef01'', Filename = ''a.txt'',
                ContentType = ''text/plain; charset=utf-8'',
                Size = 0, RenderMode = ''auto'', CreatedAt = 1700000000000000001,
                OwnerToken = ''tok''\<rparr> = ex_new_item"
    by (simp add: ex_new_item_def)
  have h: "\<not> wf_closed ex_handle" "wf_name ex_handle = ''a.txt''" "wf_token ex_handle = ''tok''"
    "wf_buffer ex_handle = [1, 2, 3]"
    by (simp_all add: ex_handle_def)
  have fr: "\<not> wf_closed ex_fresh" "wf_name ex_fresh = ''a.txt''" "wf_token ex_fresh = ''tok''"
    "wf_buffer ex_fresh = []"
    by (simp_all add: ex_fresh_def)
  have sz: "ex_new_item\<lparr>Size := 0\<rparr> = ex_new_item"
    by (simp add: ex_new_item_def)
  have name: "wf_name ex_handle = ''a'' @ CHR ''.'' # ''txt''"
    by (simp add: ex_handle_def)
  from Close_commits_once [of ex_handle ex_libs ex_env Filesystem ex_random,
      THEN conjunct2, THEN conjunct2, THEN conjunct1, rule_format, of "''a''" "''txt''"] name
  have e: "filepath_Ext (wf_name ex_handle) = ''.txt''"
    by simp
  from first [where f = ex_handle and w = ex_random and L = ex_libs and E = ex_env and st = Filesystem, OF h(1), unfolded ident_ex_random]
  have a: "fst (fst (Close ex_libs ex_env Filesystem ex_random ex_handle)) = None \<and>
   snd (fst (Close ex_libs ex_env Filesystem ex_random ex_handle)) =
     ex_handle\<lparr>wf_closed := True, wf_buffer := []\<rparr> \<and>
   calls (snd (Close ex_libs ex_env Filesystem ex_random ex_handle)) =
     [PutCall ''ab12cd34ef567890abcdef01'' [1, 2, 3] ex_new_item] \<and>
   fst (Storage_Get ex_env Filesystem (snd (Close ex_libs ex_env Filesystem ex_random ex_handle))
          ''ab12cd34ef567890abcdef01'') = Inr ([1, 2, 3], ex_new_item\<lparr>Size := 3\<rparr>)"
    using fault_free_ex_env
    by (clarsimp simp add: h(2-) filepath_Ext_ex TypeByExtension_ex
          ex_random_fields item Storage_Put_read_fault_free)
  from first [where f = ex_fresh and w = ex_random and L = ex_libs and E = ex_env and st = S3Storage, OF fr(1), unfolded ident_ex_random]
  have b: "fst (Storage_Get ex_env S3Storage (snd (Close ex_libs ex_env S3Storage ex_random ex_fresh))
          ''ab12cd34ef567890abcdef01'') = Inr ([], ex_new_item)"
    using fault_free_ex_env
    by (clarsimp simp add: fr(2-) filepath_Ext_ex TypeByExtension_ex
          ex_random_fields item sz)
  from Close_commits_once [of "ex_fresh\<lparr>wf_closed := True\<rparr>" ex_libs ex_env S3Storage ex_random,
      THEN conjunct1]
  have c: "Close ex_libs ex_env S3Storage ex_random (ex_fresh\<lparr>wf_closed := True\<rparr>) =
     ((None, ex_fresh\<lparr>wf_closed := True\<rparr>), ex_random)"
    by simp
  from a b c e h(1) fault_free_ex_env show ?thesis
    by (simp add: ex_random_fields)
qed

subsection \<open>Opening for writing\<close>

text \<open>
  The claim C10 as stated fails at two inputs. \<open>OpenFile\<close> tests for the root before it
  looks at the flags, so opening \<open>/\<close> with write-intent flags lists the store and returns
  a directory handle. And \<open>Close\<close> does not look whether the generated id is in use: when
  the random source delivers the bytes of an id that the store holds, the blob and the
  metadata of that item, here of another owner, are replaced.
\<close>

theorem OpenFile_root_and_id_collision:
  "fst (OpenFile ex_env Filesystem 0 ex_random ''tok'' ''/'' (O_RDWR OR O_CREATE)) =
     Inr (DirHandle
       \<lparr>d_info = \<lparr>fi_name = ''/'', fi_size = 0, fi_mode = ModeDir OR 493,
                   fi_modTime = 1700000000000000001, fi_isDir = True\<rparr>,
        d_children = [\<lparr>fi_name = ''a.txt'', fi_size = 5, fi_mode = 420,
                       fi_modTime = 1700000000000000000, fi_isDir = False\<rparr>],
        d_pos = 0\<rparr>) \<and>
   calls (snd (OpenFile ex_env Filesystem 0 ex_random ''tok'' ''/'' (O_RDWR OR O_CREATE))) =
     [ListCall ''tok''] \<and>
   calls ex_random = [] \<and>
   fst (Storage_Get ex_env Filesystem ex_collide ''ab12cd34ef567890abcdef01'') =
     Inr (ex_content, ex_old_item) \<and>
   fst (Storage_Get ex_env Filesystem
          (snd (Close ex_libs ex_env Filesystem ex_collide ex_fresh)) ''ab12cd34ef567890abcdef01'') =
     Inr ([], ex_new_item)"
  by code_simp

text \<open>
  C10, amended. Opening a path other than the root with write-intent flags returns a
  fresh write handle with an empty buffer and leaves the world as it is (no call reaches
  the store), whatever the store holds. \<open>Close\<close> stores under the newly generated id, the
  hexadecimal encoding of the next twelve random bytes: for every id other than that one
  the blob, the metadata record and the results of \<open>Get\<close> and \<open>GetMeta\<close> are the same after
  \<open>Close\<close> as before, so that an existing item is modified only when the generated id
  is its own. When no primitive operation fails, \<open>Get\<close> of the generated id returns after
  \<open>Close\<close> the buffered bytes and an item with the handle's name and owner, so an upload
  under the name of an existing item leaves two items with that name.
\<close>

theorem OpenFile_write_never_replaces:
  "(cleanPath name0 \<noteq> [] \<and> cleanPath name0 \<noteq> ''/'' \<and>
    (flag AND O_CREATE \<noteq> 0 \<or> flag AND O_WRONLY \<noteq> 0 \<or> flag AND O_RDWR \<noteq> 0) \<longrightarrow>
      OpenFile E st m w token name0 flag =
        (Inr (WriteHandle \<lparr>wf_name = cleanPath name0, wf_token = token, wf_buffer = [],
                            wf_maxFileSize = m, wf_closed = False\<rparr>), w)) \<and>
   (let ident = concat (map (\<lambda>b. [''0123456789abcdef'' ! unat (drop_bit 4 b),
                                    ''0123456789abcdef'' ! unat (b AND 15)])
                  (take 12 (entropy w @ replicate 12 0)));
        w' = snd (Close L E st w f)
    in (ident' \<noteq> ident \<longrightarrow>
          map_of (blobs w') (filePath ident') = map_of (blobs w) (filePath ident') \<and>
          map_of (docs w') (metaPath ident') = map_of (docs w) (metaPath ident') \<and>
          fst (Storage_Get E st w' ident') = fst (Storage_Get E st w ident') \<and>
          fst (Storage_GetMeta E st w' ident') = fst (Storage_GetMeta E st w ident')) \<and>
       (\<not> wf_closed f \<and> fault_free E \<and>
        - 62167219200 * 1000000000 \<le> clock w \<and> clock w < 253402300800 * 1000000000 \<longrightarrow>
          (case fst (Storage_Get E st w' ident) of
             Inl e \<Rightarrow> False
           | Inr (data, item) \<Rightarrow>
               data = wf_buffer f \<and> ID item = ident \<and> Filename item = wf_name f \<and>
               OwnerToken item = wf_token f \<and> Size item = int (length (wf_buffer f)))))"
  (is "?A \<and> ?B")
proof
  show ?A
  proof
    assume "cleanPath name0 \<noteq> [] \<and> cleanPath name0 \<noteq> ''/'' \<and>
      (flag AND O_CREATE \<noteq> 0 \<or> flag AND O_WRONLY \<noteq> 0 \<or> flag AND O_RDWR \<noteq> 0)"
    then show "OpenFile E st m w token name0 flag =
        (Inr (WriteHandle \<lparr>wf_name = cleanPath name0, wf_token = token, wf_buffer = [],
                            wf_maxFileSize = m, wf_closed = False\<rparr>), w)"
      by (intro OpenFile_write) simp_all
  qed
next
  have frame: "ident' \<noteq> fst (generateID w) \<longrightarrow>
          map_of (blobs (snd (Close L E st w f))) (filePath ident') = map_of (blobs w) (filePath ident') \<and>
          map_of (docs (snd (Close L E st w f))) (metaPath ident') = map_of (docs w) (metaPath ident') \<and>
          fst (Storage_Get E st (snd (Close L E st w f)) ident') = fst (Storage_Get E st w ident') \<and>
          fst (Storage_GetMeta E st (snd (Close L E st w f)) ident') = fst (Storage_GetMeta E st w ident')"
    using Close_frame [of ident' w L E st f] Close_Get_frame [of ident' w E st L f] by blast
  have new: "\<not> wf_closed f \<and> fault_free E \<and>
        - 62167219200 * 1000000000 \<le> clock w \<and> clock w < 253402300800 * 1000000000 \<longrightarrow>
          (case fst (Storage_Get E st (snd (Close L E st w f)) (fst (generateID w))) of
             Inl e \<Rightarrow> False
           | Inr (data, item) \<Rightarrow>
               data = wf_buffer f \<and> ID item = fst (generateID w) \<and> Filename item = wf_name f \<and>
               OwnerToken item = wf_token f \<and> Size item = int (length (wf_buffer f)))"
    using Close_new_item [of f E w st L] by blast
  from frame [unfolded generateID_value(1)] new [unfolded generateID_value(1)]
  show ?B
    unfolding Let_def by (rule conjI)
qed

theorem OpenFile_write_never_replaces_witness:
  "OpenFile ex_env Filesystem 0 ex_random ''tok'' ''/a.txt'' (O_RDWR OR O_CREATE) =
     (Inr (WriteHandle ex_fresh), ex_random) \<and>
   ''ab12'' \<noteq> ''ab12cd34ef567890abcdef01'' \<and>
   fst (Storage_Get ex_env Filesystem
          (snd (Close ex_libs ex_env Filesystem ex_random ex_fresh)) ''ab12'') =
     Inr (ex_content, ex_item\<lparr>Size := 5\<rparr>) \<and>
   \<not> wf_closed ex_fresh \<and> fault_free ex_env \<and>
   - 62167219200 * 1000000000 \<le> clock ex_random \<and> clock ex_random < 253402300800 * 1000000000 \<and>
   (case fst (Storage_Get ex_env Filesystem
          (snd (Close ex_libs ex_env Filesystem ex_random ex_fresh)) ''ab12cd34ef567890abcdef01'') of
      Inl e \<Rightarrow> False
    | Inr (data, item) \<Rightarrow>
        data = [] \<and> ID item = ''ab12cd34ef567890abcdef01'' \<and> Filename item = ''a.txt'' \<and>
        OwnerToken item = ''tok'' \<and> Size item = 0)"
proof -
  have fr: "\<not> wf_closed ex_fresh" "wf_name ex_fresh = ''a.txt''" "wf_token ex_fresh = ''tok''"
    "wf_buffer ex_fresh = []"
    by (simp_all add: ex_fresh_def)
  have fresh: "\<lparr>wf_name = ''a.txt'', wf_token = ''tok'', wf_buffer = [],
                 wf_maxFileSize = 0, wf_closed = False\<rparr> = ex_fresh"
    by (simp add: ex_fresh_def)
  from OpenFile_write_never_replaces [where ?name0.0 = "''/a.txt''" and flag = "O_RDWR OR O_CREATE"
      and E = ex_env and st = Filesystem and m = 0 and w = ex_random and token = "''tok''"
      and ident' = "''ab12''" and L = ex_libs and f = ex_fresh,
      unfolded ident_ex_random Let_def]
    fault_free_ex_env
  show ?thesis
    by (auto simp add: cleanPath_ex write_flags_ex Storage_Get_ex_random fr fresh ex_random_fields
          split: sum.splits prod.splits)
qed

subsection \<open>List on the filesystem backend\<close>

lemma set_insert_Slice [simp]: "set (insert_Slice lt x ys) = insert x (set ys)"
  by (induction ys) auto

lemma set_sort_Slice [simp]: "set (sort_Slice lt xs) = set xs"
  by (induction xs) (simp_all add: sort_Slice_def)

lemma length_insert_Slice [simp]: "length (insert_Slice lt x ys) = Suc (length ys)"
  by (induction ys) auto

lemma length_sort_Slice [simp]: "length (sort_Slice lt xs) = length xs"
  by (induction xs) (simp_all add: sort_Slice_def)

lemma sorted_insert_Slice_After:
  "sorted_wrt (\<lambda>a b. CreatedAt b \<le> CreatedAt a) ys \<Longrightarrow>
   sorted_wrt (\<lambda>a b. CreatedAt b \<le> CreatedAt a) (insert_Slice After x ys)"
  by (induction ys) (auto simp: After_def)

lemma sorted_sort_Slice_After:
  "sorted_wrt (\<lambda>a b. CreatedAt b \<le> CreatedAt a) (sort_Slice After xs)"
  by (induction xs) (simp_all add: sort_Slice_def sorted_insert_Slice_After)

lemma Ext_scan_suffix:
  "Ext_scan cs acc = r \<Longrightarrow> r \<noteq> [] \<Longrightarrow> \<exists>ys zs. cs = ys @ zs \<and> r = rev ys @ acc"
proof (induction cs acc rule: Ext_scan.induct)
  case (1 acc)
  then show ?case by simp
next
  case (2 c cs acc)
  show ?case
  proof (cases "c = CHR ''/''")
    case True
    with 2 show ?thesis by simp
  next
    case False
    show ?thesis
    proof (cases "c = CHR ''.''")
      case True
      with 2 False have "r = rev [c] @ acc" by auto
      then show ?thesis by (intro exI [of _ "[c]"] exI [of _ cs]) simp
    next
      case dot: False
      with 2 False obtain ys zs where "cs = ys @ zs" "r = rev ys @ c # acc"
        by auto
      then show ?thesis
        by (intro exI [of _ "c # ys"] exI [of _ zs]) simp
    qed
  qed
qed

lemma filepath_Ext_json:
  assumes "filepath_Ext n = ''.json''"
  shows "n = take (length n - 5) n @ ''.json''"
proof -
  from assms Ext_scan_suffix [of "rev n" "[]" "''.json''"]
  obtain ys zs where "rev n = ys @ zs" "''.json'' = rev ys"
    by (auto simp: filepath_Ext_def)
  then have "rev (rev n) = rev (ys @ zs)" and ys: "ys = rev ''.json''"
    by simp_all
  then have n: "n = rev zs @ ''.json''"
    by simp
  have "take (length (rev zs @ ''.json'') - 5) (rev zs @ ''.json'') = rev zs"
    by simp
  with n show ?thesis
    by simp
qed

lemma filepath_Ext_of_json: "filepath_Ext (ident @ ''.json'') = ''.json''"
  by (simp add: filepath_Ext_def)


lemma set_meta_entries:
  "set (meta_entries w) =
     {n. CHR ''/'' \<notin> set n \<and> ''meta/'' @ n \<in> fst ` set (docs w)}"
proof -
  have "''meta/'' @ drop 5 k = k" if "take 5 k = ''meta/''" for k :: string
    using append_take_drop_id [of 5 k] that by simp
  then show ?thesis
    by (auto simp: meta_entries_def) force
qed

lemma set_Filesystem_List_loop:
  "set (Filesystem_List_loop E w ownerToken ns) =
     {item. \<exists>n \<in> set ns. filepath_Ext n = ''.json'' \<and>
        Filesystem_GetMeta E w (take (length n - 5) n) = Inr item \<and>
        OwnerToken item = ownerToken}"
  by (induction ns) (auto split: sum.splits)

lemma Filesystem_GetMeta_fault_free:
  "fault_free E \<Longrightarrow>
   Filesystem_GetMeta E w ident = Inr item \<longleftrightarrow> map_of (docs w) (metaPath ident) = Some (Json item)"
  by (auto simp: Filesystem_GetMeta_def fault_free_def split: option.splits mdoc.splits)

lemma map_of_Some_fst: "map_of xs k = Some v \<Longrightarrow> k \<in> fst ` set xs"
  by (metis domI dom_map_of_conv_image_fst)

lemma Filesystem_List_items:
  assumes "fault_free E"
  shows "\<exists>items. Filesystem_List E w ownerToken = Inr items \<and>
           sorted_wrt (\<lambda>a b. CreatedAt b \<le> CreatedAt a) items \<and>
           set items = {item. OwnerToken item = ownerToken \<and>
                          (\<exists>ident. CHR ''/'' \<notin> set ident \<and>
                             map_of (docs w) (metaPath ident) = Some (Json item))}"
proof -
  let ?loop = "Filesystem_List_loop E w ownerToken (meta_entries w)"
  have "set ?loop = {item. OwnerToken item = ownerToken \<and>
                          (\<exists>ident. CHR ''/'' \<notin> set ident \<and>
                             map_of (docs w) (metaPath ident) = Some (Json item))}"
    (is "_ = ?S")
  proof (intro equalityI subsetI)
    fix item assume "item \<in> set ?loop"
    then obtain n where n: "n \<in> set (meta_entries w)" "filepath_Ext n = ''.json''"
      "Filesystem_GetMeta E w (take (length n - 5) n) = Inr item" "OwnerToken item = ownerToken"
      by (auto simp: set_Filesystem_List_loop)
    let ?ident = "take (length n - 5) n"
    from n(2) have eq: "n = ?ident @ ''.json''"
      by (rule filepath_Ext_json)
    from n(1) have "CHR ''/'' \<notin> set n"
      by (simp add: set_meta_entries)
    with eq have "CHR ''/'' \<notin> set ?ident"
      by (metis Un_iff set_append)
    moreover from n(3) assms have "map_of (docs w) (metaPath ?ident) = Some (Json item)"
      by (simp add: Filesystem_GetMeta_fault_free)
    ultimately show "item \<in> ?S"
      using n(4) by blast
  next
    fix item assume "item \<in> ?S"
    then obtain ident where i: "OwnerToken item = ownerToken" "CHR ''/'' \<notin> set ident"
      "map_of (docs w) (metaPath ident) = Some (Json item)"
      by blast
    let ?n = "ident @ ''.json''"
    from i(3) have "''meta/'' @ ?n \<in> fst ` set (docs w)"
      using map_of_Some_fst [of "docs w" "metaPath ident"] by (simp add: metaPath_def)
    with i(2) have "?n \<in> set (meta_entries w)"
      by (simp add: set_meta_entries)
    moreover have "filepath_Ext ?n = ''.json''"
      by (rule filepath_Ext_of_json)
    moreover have "take (length ?n - 5) ?n = ident"
      by simp
    moreover from i(3) assms have "Filesystem_GetMeta E w ident = Inr item"
      by (simp add: Filesystem_GetMeta_fault_free)
    ultimately show "item \<in> set ?loop"
      using i(1) unfolding set_Filesystem_List_loop by (intro CollectI bexI [of _ ?n]) simp_all
  qed
  with assms show ?thesis
    by (simp add: Filesystem_List_def fault_free_def sorted_sort_Slice_After)
qed

lemma findByFilename_loop_first:
  assumes "sorted_wrt (\<lambda>a b. CreatedAt b \<le> CreatedAt a) items"
  shows "(\<exists>item \<in> set items. itemName item = name) \<longrightarrow>
           (\<exists>item. findByFilename_loop name items = Inr item \<and> item \<in> set items \<and>
              itemName item = name \<and>
              (\<forall>other \<in> set items. itemName other = name \<longrightarrow> CreatedAt other \<le> CreatedAt item))"
    and "(\<forall>item \<in> set items. itemName item \<noteq> name) \<longrightarrow>
           findByFilename_loop name items = Inl ErrNotExist"
  using assms by (induction items) auto


lemma Filesystem_findByFilename_newest:
  fixes w :: world and token :: string
  assumes "fault_free E"
  defines "owned \<equiv> {item. OwnerToken item = token \<and>
                          (\<exists>ident. CHR ''/'' \<notin> set ident \<and>
                             map_of (docs w) (metaPath ident) = Some (Json item))}"
  shows "(\<exists>item \<in> owned. itemName item = name) \<longrightarrow>
           (\<exists>item. fst (findByFilename E Filesystem w token name) = Inr item \<and>
              item \<in> owned \<and> itemName item = name \<and>
              (\<forall>other \<in> owned. itemName other = name \<longrightarrow> CreatedAt other \<le> CreatedAt item))"
    and "(\<forall>item \<in> owned. itemName item \<noteq> name) \<longrightarrow>
           fst (findByFilename E Filesystem w token name) = Inl ErrNotExist"
proof -
  from Filesystem_List_items [OF assms(1), of w token]
  obtain items where items: "Filesystem_List E w token = Inr items"
    "sorted_wrt (\<lambda>a b. CreatedAt b \<le> CreatedAt a) items" "set items = owned"
    unfolding owned_def by blast
  have f: "fst (findByFilename E Filesystem w token name) = findByFilename_loop name items"
    by (simp add: findByFilename_def Storage_List_def items(1))
  from findByFilename_loop_first [OF items(2), of name] show
    "(\<exists>item \<in> owned. itemName item = name) \<longrightarrow>
           (\<exists>item. fst (findByFilename E Filesystem w token name) = Inr item \<and>
              item \<in> owned \<and> itemName item = name \<and>
              (\<forall>other \<in> owned. itemName other = name \<longrightarrow> CreatedAt other \<le> CreatedAt item))"
    "(\<forall>item \<in> owned. itemName item \<noteq> name) \<longrightarrow>
           fst (findByFilename E Filesystem w token name) = Inl ErrNotExist"
    unfolding f items(3) by simp_all
qed

text \<open>
  C2. The claim holds on the filesystem backend (\<open>Filesystem_List_items\<close>: exactly the
  decodable records of the owner, newest first) and fails on the object store, whose
  \<open>List\<close> returns the items in the order of their keys and never sorts them: after
  \<open>Put\<close> of \<open>a1\<close> and then of \<open>b2\<close>, created one second later, \<open>List\<close> returns the older
  item first, where the filesystem backend returns the newer one first.
\<close>

theorem S3Storage_List_oldest_first:
  "snd (S3Storage_Put ex_env
          (snd (S3Storage_Put ex_env ex_world ''a1'' [1, 2, 3] (ex_older\<lparr>Size := 0\<rparr>)))
          ''b2'' ex_content (ex_newer\<lparr>Size := 0\<rparr>)) = ex_two \<and>
   S3Storage_List ex_env ex_two ''tok'' = Inr [ex_older, ex_newer] \<and>
   CreatedAt ex_older < CreatedAt ex_newer \<and>
   Filesystem_List ex_env ex_two ''tok'' = Inr [ex_newer, ex_older]"
  by code_simp

text \<open>
  C5. The claim holds on the filesystem backend (\<open>Filesystem_findByFilename_newest\<close>) and
  fails on the object store: with the two items named \<open>a.txt\<close> of the store above,
  \<open>findByFilename\<close>, \<open>Stat\<close> and \<open>OpenFile\<close> resolve the name to the older item \<open>a1\<close>, the
  first in key order, where the filesystem backend resolves it to the newer item \<open>b2\<close>.
\<close>

theorem findByFilename_S3_resolves_to_older:
  "fst (findByFilename ex_env S3Storage ex_two ''tok'' ''a.txt'') = Inr ex_older \<and>
   fst (Stat ex_env S3Storage ex_two ''tok'' ''/a.txt'') =
     Inr \<lparr>fi_name = ''a.txt'', fi_size = 3, fi_mode = 420,
          fi_modTime = 1700000000000000000, fi_isDir = False\<rparr> \<and>
   fst (OpenFile ex_env S3Storage 0 ex_two ''tok'' ''/a.txt'' 0) =
     Inr (ReadHandle
       \<lparr>f_info = \<lparr>fi_name = ''a.txt'', fi_size = 3, fi_mode = 420,
                   fi_modTime = 1700000000000000000, fi_isDir = False\<rparr>,
        f_reader = [1, 2, 3]\<rparr>) \<and>
   CreatedAt ex_older < CreatedAt ex_newer \<and>
   itemName ex_older = ''a.txt'' \<and> itemName ex_newer = ''a.txt'' \<and>
   fst (findByFilename ex_env Filesystem ex_two ''tok'' ''a.txt'') = Inr ex_newer"
  by code_simp

theorem findByFilename_S3_resolves_to_older_witness:
  "cleanPath ''/a.txt'' = ''a.txt'' \<and>
   (0 :: int) AND O_CREATE = 0 \<and> (0 :: int) AND O_WRONLY = 0 \<and> (0 :: int) AND O_RDWR = 0 \<and>
   fst (OpenFile ex_env S3Storage 0 ex_two ''tok'' ''/a.txt'' 0) =
     Inr (ReadHandle
       \<lparr>f_info = \<lparr>fi_name = ''a.txt'', fi_size = 3, fi_mode = 420,
                   fi_modTime = 1700000000000000000, fi_isDir = False\<rparr>,
        f_reader = [1, 2, 3]\<rparr>) \<and>
   fst (findByFilename ex_env S3Storage ex_two ''tok'' ''a.txt'') = Inr ex_older"
  using findByFilename_S3_resolves_to_older
  by (simp add: cleanPath_ex)

subsection \<open>Behaviour next to the claims\<close>

text \<open>
  On the object store a failure of \<^verbatim>\<open>json.Marshal\<close>, which happens before the metadata
  upload is attempted, returns the marshalling error and leaves the uploaded blob in
  place; on the filesystem the same failure surfaces inside \<^verbatim>\<open>Encode\<close> and the blob is
  removed.
\<close>

lemma S3Storage_Put_marshal_failure_keeps_blob:
  assumes "\<not> fails E IoCopy (fileKey ident)" and "\<not> fails E S3PutObject (fileKey ident)"
    and "\<not> marshal_ok item"
  shows "fst (S3Storage_Put E w ident content item) = Some ErrMarshalMeta"
    and "map_of (blobs (snd (S3Storage_Put E w ident content item))) (fileKey ident) = Some content"
  using assms by (simp_all add: S3Storage_Put_def Let_def update_conv')

end
